theory Spec2Isabelle
  imports Main "HOL-Library.Multiset"
begin

section \<open>Multi-region render queue: distributeClipsAcrossRegions\<close>

text \<open>
  The ten render regions of \<^verbatim>\<open>REMOTION_REGIONS\<close> (sqs-multi-region), in source order.
\<close>

definition REMOTION_REGIONS :: "string list" where
  "REMOTION_REGIONS =
     [''us-east-1'', ''us-west-2'', ''eu-west-1'', ''ap-southeast-1'', ''ap-southeast-2'',
      ''eu-central-1'', ''ca-central-1'', ''ap-northeast-1'', ''ap-northeast-2'', ''sa-east-1'']"

text \<open>
  A clip as the distribution function reads it: only \<^verbatim>\<open>viral_score\<close> is inspected, and it
  may be missing (\<^verbatim>\<open>clips: any[]\<close>), which is \<open>None\<close> here.
\<close>

record clip =
  clip_id :: string
  clip_title :: string
  viral_score :: "int option"

record distributed_clip =
  dc_clip :: clip
  dc_region :: string

text \<open>\<^verbatim>\<open>x || 0\<close> on a number that may be missing: a missing score and the score 0 both give 0.\<close>

definition or_zero :: "int option \<Rightarrow> int" where
  "or_zero v = (case v of None \<Rightarrow> 0 | Some n \<Rightarrow> (if n = 0 then 0 else n))"

text \<open>The comparator \<^verbatim>\<open>(a, b) => (b.viral_score || 0) - (a.viral_score || 0)\<close>.\<close>

definition score_cmp :: "clip \<Rightarrow> clip \<Rightarrow> int" where
  "score_cmp a b = or_zero (viral_score b) - or_zero (viral_score a)"

text \<open>
  \<^verbatim>\<open>Array.prototype.sort\<close> with a comparator: the language fixes the result for a consistent
  comparator (sorted by it, and stable since ES2019), not the algorithm. A stable insertion
  sort computes that result: \<open>x\<close> is placed before the first \<open>y\<close> with \<open>cmp x y \<le> 0\<close>.
\<close>

fun js_insert :: "('a \<Rightarrow> 'a \<Rightarrow> int) \<Rightarrow> 'a \<Rightarrow> 'a list \<Rightarrow> 'a list" where
  "js_insert cmp x [] = [x]"
| "js_insert cmp x (y # ys) = (if cmp x y \<le> 0 then x # y # ys else y # js_insert cmp x ys)"

fun js_sort :: "('a \<Rightarrow> 'a \<Rightarrow> int) \<Rightarrow> 'a list \<Rightarrow> 'a list" where
  "js_sort cmp [] = []"
| "js_sort cmp (x # xs) = js_insert cmp x (js_sort cmp xs)"

text \<open>
  Arrays are objects: \<^verbatim>\<open>sort\<close> reorders the array it is called on. The store holds the
  arrays by address; \<^verbatim>\<open>[...clips]\<close> allocates a copy at a fresh address and \<^verbatim>\<open>sort\<close> writes
  the array at the address it is given.
\<close>

type_synonym 'a store = "'a list list"

definition spread_copy :: "'a store \<Rightarrow> nat \<Rightarrow> 'a store \<times> nat" where
  "spread_copy h a = (h @ [h ! a], length h)"

definition array_sort :: "('a \<Rightarrow> 'a \<Rightarrow> int) \<Rightarrow> 'a store \<Rightarrow> nat \<Rightarrow> 'a store" where
  "array_sort cmp h a = h[a := js_sort cmp (h ! a)]"

text \<open>\<^verbatim>\<open>xs.map((x, index) => f x index)\<close>.\<close>

definition map_index :: "('a \<Rightarrow> nat \<Rightarrow> 'b) \<Rightarrow> 'a list \<Rightarrow> 'b list" where
  "map_index f xs = map (\<lambda>(i, x). f x i) (enumerate 0 xs)"

text \<open>
  \<^verbatim>\<open>distributeClipsAcrossRegions(clips)\<close>, called with the address of \<^verbatim>\<open>clips\<close> in the store;
  it returns the store afterwards and the freshly built result array.
\<close>

definition distributeClipsAcrossRegions ::
  "clip store \<Rightarrow> nat \<Rightarrow> clip store \<times> distributed_clip list" where
  "distributeClipsAcrossRegions h clips =
     (let (h1, sortedClips) = spread_copy h clips;
          h2 = array_sort score_cmp h1 sortedClips
      in (h2, map_index (\<lambda>c index.
                \<lparr>dc_clip = c, dc_region = REMOTION_REGIONS ! (index mod length REMOTION_REGIONS)\<rparr>)
              (h2 ! sortedClips)))"

text \<open>Descending order of the effective score.\<close>

definition score_desc :: "clip \<Rightarrow> clip \<Rightarrow> bool" where
  "score_desc a b \<longleftrightarrow> or_zero (viral_score b) \<le> or_zero (viral_score a)"

section \<open>Phase 2: batch creation\<close>

text \<open>
  \<^verbatim>\<open>BATCH_CONFIG\<close>, and the \<^verbatim>\<open>create-batches\<close> step of \<^verbatim>\<open>phase2BatchProcessor\<close> (the
  same code opens the batch step of \<^verbatim>\<open>unifiedPipelineProcessor\<close>). A viral moment is opaque
  (\<^verbatim>\<open>any\<close>); \<^verbatim>\<open>{...moment, original_index: index}\<close> is the moment with its tag.
\<close>

record 'm indexed_moment =
  im_moment :: 'm
  original_index :: nat

record 'm batch_group =
  batch_index :: nat
  viral_moments :: "'m indexed_moment list"
  clip_count :: nat

definition clipsPerBatch :: nat where
  "clipsPerBatch = 4"

definition maxConcurrentBatches :: nat where
  "maxConcurrentBatches = 2"

definition js_slice :: "'a list \<Rightarrow> nat \<Rightarrow> nat \<Rightarrow> 'a list" where
  "js_slice xs s e = take (e - s) (drop s xs)"

partial_function (option) batch_loop ::
  "nat \<Rightarrow> 'm indexed_moment list \<Rightarrow> nat \<Rightarrow> 'm batch_group list \<Rightarrow> 'm batch_group list option" where
  "batch_loop n indexedMoments i groups =
     (if i < length indexedMoments
      then (let batch = js_slice indexedMoments i (i + n)
            in batch_loop n indexedMoments (i + n)
                 (groups @ [\<lparr>batch_index = i div n, viral_moments = batch,
                             clip_count = length batch\<rparr>]))
      else Some groups)"

definition create_batches :: "nat \<Rightarrow> 'm list \<Rightarrow> 'm batch_group list option" where
  "create_batches n viralMoments =
     (let indexedMoments =
            map_index (\<lambda>moment index. \<lparr>im_moment = moment, original_index = index\<rparr>) viralMoments
      in batch_loop n indexedMoments 0 [])"

definition nth_batch :: "nat \<Rightarrow> 'm indexed_moment list \<Rightarrow> nat \<Rightarrow> 'm batch_group" where
  "nth_batch n ims k =
     \<lparr>batch_index = k, viral_moments = take n (drop (k * n) ims),
      clip_count = length (take n (drop (k * n) ims))\<rparr>"

definition batch_count :: "nat \<Rightarrow> nat \<Rightarrow> nat" where
  "batch_count n len = (len + n - 1) div n"

section \<open>Errors, strings and HTTP responses\<close>

text \<open>
  What a step throws: a plain \<^verbatim>\<open>Error\<close>, or Inngest's \<^verbatim>\<open>NonRetriableError\<close>; each carries
  its message.
\<close>

datatype thrown = Error string | NonRetriableError string

text \<open>Decimal rendering of a number inside a template string.\<close>

fun digit_char :: "nat \<Rightarrow> char" where
  "digit_char n = (''0123456789'' ! (n mod 10))"

fun show_nat :: "nat \<Rightarrow> string" where
  "show_nat n = (if n < 10 then [digit_char n] else show_nat (n div 10) @ [digit_char n])"

declare show_nat.simps [simp del]

text \<open>JavaScript truthiness of a string that may be missing: \<^verbatim>\<open>undefined\<close> and \<^verbatim>\<open>""\<close> are falsy.\<close>

definition truthy :: "string option \<Rightarrow> bool" where
  "truthy v = (case v of None \<Rightarrow> False | Some s \<Rightarrow> s \<noteq> [])"

text \<open>\<^verbatim>\<open>response.ok\<close>: the status is in the range 200 to 299.\<close>

definition response_ok :: "nat \<Rightarrow> bool" where
  "response_ok status \<longleftrightarrow> 200 \<le> status \<and> status \<le> 299"

section \<open>Download resolution: polling the progress URL\<close>

text \<open>
  The body of a poll response as the two polling loops read it, and the outcome of one
  \<^verbatim>\<open>fetch\<close> of the progress URL: the call throws (network failure), or answers with a status
  and a body that parses as JSON (\<open>Some\<close>) or does not (\<open>None\<close>, \<^verbatim>\<open>json()\<close> throws).
\<close>

record poll_result =
  pr_download_url :: "string option"
  pr_progress :: "int option"
  pr_video_id :: "string option"
  pr_title :: "string option"

datatype poll_outcome = FetchThrows | HttpResponse nat "poll_result option"

record rapid_api_result =
  ra_progressUrl :: "string option"
  ra_videoId :: string
  ra_title :: string
  ra_length :: string

record download_result =
  dr_downloadUrl :: string
  dr_videoId :: string
  dr_title :: string
  dr_length :: string

text \<open>The effects of a polling run that the claims are about: calls of \<^verbatim>\<open>fetch\<close> and time slept.\<close>

record poll_clock =
  fetch_calls :: nat
  slept_ms :: nat

definition maxPollAttempts :: nat where
  "maxPollAttempts = 120"

definition pollInterval :: nat where
  "pollInterval = 5000"

definition sleep :: "nat \<Rightarrow> poll_clock \<Rightarrow> poll_clock" where
  "sleep ms c = c\<lparr>slept_ms := slept_ms c + ms\<rparr>"

definition count_fetch :: "poll_clock \<Rightarrow> poll_clock" where
  "count_fetch c = c\<lparr>fetch_calls := Suc (fetch_calls c)\<rparr>"

definition undefined_or :: "string option \<Rightarrow> string" where
  "undefined_or v = (case v of None \<Rightarrow> ''undefined'' | Some s \<Rightarrow> s)"

text \<open>
  One iteration of the loop body of \<^verbatim>\<open>rapidapi-10min-polling\<close>: it either returns from the step
  or goes on to the next attempt; every path that goes on sleeps \<^verbatim>\<open>pollInterval\<close> first (the
  \<^verbatim>\<open>continue\<close> branches, the fall-through and the \<^verbatim>\<open>catch\<close>).
\<close>

datatype 'a loop_step = Continue | Return 'a

definition poll_attempt ::
  "poll_outcome \<Rightarrow> rapid_api_result \<Rightarrow> poll_clock \<Rightarrow> download_result loop_step \<times> poll_clock" where
  "poll_attempt response rapidApiResult c =
     (case response of
        FetchThrows \<Rightarrow> (Continue, sleep pollInterval c)
      | HttpResponse status body \<Rightarrow>
          if \<not> response_ok status then (Continue, sleep pollInterval c)
          else (case body of
                  None \<Rightarrow> (Continue, sleep pollInterval c)
                | Some pollResult \<Rightarrow>
                    if truthy (pr_download_url pollResult)
                    then (Return \<lparr>dr_downloadUrl = the (pr_download_url pollResult),
                                   dr_videoId = ra_videoId rapidApiResult,
                                   dr_title = ra_title rapidApiResult,
                                   dr_length = ra_length rapidApiResult\<rparr>, c)
                    else if (case pr_progress pollResult of None \<Rightarrow> False | Some p \<Rightarrow> p < 1000)
                    then (Continue, sleep pollInterval c)
                    else (Continue, sleep pollInterval c)))"

text \<open>\<^verbatim>\<open>for (let attempt = a; attempt <= maxAttempts; attempt++) body\<close>.\<close>

function for_attempts ::
  "nat \<Rightarrow> (nat \<Rightarrow> poll_clock \<Rightarrow> 'a loop_step \<times> poll_clock) \<Rightarrow> nat \<Rightarrow> poll_clock
     \<Rightarrow> 'a option \<times> poll_clock" where
  "for_attempts maxAttempts body attempt c =
     (if attempt \<le> maxAttempts then
        (case body attempt c of
           (Return result, c') \<Rightarrow> (Some result, c')
         | (Continue, c') \<Rightarrow> for_attempts maxAttempts body (attempt + 1) c')
      else (None, c))"
  by pat_completeness auto
termination
  by (relation "measure (\<lambda>(maxAttempts, body, attempt, c). Suc maxAttempts - attempt)") auto

declare for_attempts.simps [simp del]

definition rapidapi_10min_polling ::
  "(nat \<Rightarrow> poll_outcome) \<Rightarrow> rapid_api_result \<Rightarrow> (thrown + download_result) \<times> poll_clock" where
  "rapidapi_10min_polling fetch rapidApiResult =
     (case for_attempts maxPollAttempts
             (\<lambda>attempt c. poll_attempt (fetch attempt) rapidApiResult (count_fetch c))
             1 \<lparr>fetch_calls = 0, slept_ms = 0\<rparr> of
        (Some result, c) \<Rightarrow> (Inr result, c)
      | (None, c) \<Rightarrow>
          (Inl (Error (''Polling timed out after '' @ show_nat maxPollAttempts
                       @ '' attempts (10 minutes). Progress URL: ''
                       @ undefined_or (ra_progressUrl rapidApiResult))), c))"

text \<open>The \<^verbatim>\<open>poll-for-download-url\<close> step of \<^verbatim>\<open>rapidApiOrchestrator\<close>.\<close>

record orchestrator_download =
  od_download_url :: string
  od_video_id :: string
  od_title :: string

definition or_else :: "string option \<Rightarrow> string \<Rightarrow> string" where
  "or_else v d = (if truthy v then the v else d)"

definition status_attempt ::
  "poll_outcome \<Rightarrow> string \<Rightarrow> poll_clock \<Rightarrow> orchestrator_download loop_step \<times> poll_clock" where
  "status_attempt response youtubeUrl c =
     (case response of
        FetchThrows \<Rightarrow> (Continue, sleep pollInterval c)
      | HttpResponse code body \<Rightarrow>
          if \<not> response_ok code then (Continue, sleep pollInterval c)
          else (case body of
                  None \<Rightarrow> (Continue, sleep pollInterval c)
                | Some status \<Rightarrow>
                    if truthy (pr_download_url status)
                    then (Return \<lparr>od_download_url = the (pr_download_url status),
                                   od_video_id = or_else (pr_video_id status) youtubeUrl,
                                   od_title = or_else (pr_title status) ''Unknown Title''\<rparr>, c)
                    else (Continue, sleep pollInterval c)))"

definition poll_for_download_url ::
  "(nat \<Rightarrow> poll_outcome) \<Rightarrow> string \<Rightarrow> (thrown + orchestrator_download) \<times> poll_clock" where
  "poll_for_download_url fetch youtubeUrl =
     (case for_attempts maxPollAttempts
             (\<lambda>attempt c. status_attempt (fetch attempt) youtubeUrl (count_fetch c))
             1 \<lparr>fetch_calls = 0, slept_ms = 0\<rparr> of
        (Some result, c) \<Rightarrow> (Inr result, c)
      | (None, c) \<Rightarrow>
          (Inl (Error (''Download URL not available after '' @ show_nat maxPollAttempts
                       @ '' polling attempts (10 minutes)'')), c))"

text \<open>
  A poll response in which a download URL appears: a 2xx answer whose JSON body has a
  non-empty \<^verbatim>\<open>download_url\<close>, and that URL.
\<close>

definition has_download_url :: "poll_outcome \<Rightarrow> bool" where
  "has_download_url response =
     (case response of
        FetchThrows \<Rightarrow> False
      | HttpResponse status body \<Rightarrow>
          response_ok status \<and> (case body of None \<Rightarrow> False | Some r \<Rightarrow> truthy (pr_download_url r)))"

definition url_of :: "poll_outcome \<Rightarrow> string" where
  "url_of response =
     (case response of HttpResponse status (Some r) \<Rightarrow> the (pr_download_url r) | _ \<Rightarrow> [])"

text \<open>One unsuccessful attempt: a call of \<^verbatim>\<open>fetch\<close> and a sleep of \<^verbatim>\<open>pollInterval\<close>.\<close>

definition tick :: "poll_clock \<Rightarrow> poll_clock" where
  "tick c = sleep pollInterval (count_fetch c)"

section \<open>Datastore and effects\<close>

text \<open>
  The rows the orchestrator reads and writes, with the columns its decisions depend on;
  timestamps and cost and time metrics are left out, as is the clock. Statuses are the
  strings the code writes.
\<close>

record generated_clip =
  gc_id :: string
  gc_pipeline_id :: string
  gc_status :: string
  gc_r2_final_url :: "string option"
  gc_error_message :: "string option"

record pipeline =
  pl_id :: string
  pl_status :: string
  pl_total_clips :: "int option"
  pl_successful_clips :: "int option"
  pl_failed_clips :: "int option"
  pl_error_message :: "string option"
  pl_error_phase :: "string option"

record user_profile =
  up_id :: string
  up_credits :: int
  up_is_blocked :: bool
  up_total_credits_used :: int

record render_job =
  rj_clip_id :: string
  rj_remotion_status :: string
  rj_remotion_progress :: nat
  rj_output_s3_key :: "string option"
  rj_output_r2_url :: "string option"
  rj_error_message :: "string option"

record analysis_result =
  ar_status :: string
  ar_run_id :: string
  ar_viral_moments :: "string list"
  ar_error :: "string option"
  ar_error_phase :: "string option"

record clip_metadata =
  cm_clip_index :: nat
  cm_title :: string
  cm_s3_key :: string
  cm_captions_key :: string
  cm_clip_filename :: string

record batch_processing_result =
  br_status :: string
  br_batch_index :: nat
  br_processed_clips :: "clip_metadata list"
  br_failed_clips :: "string list"
  br_clips_processed :: int
  br_clips_failed :: int
  br_error :: "string option"

record pipeline_complete_data =
  pc_pipelineId :: string
  pc_userId :: string
  pc_totalClips :: nat
  pc_completedClips :: nat
  pc_failedClips :: nat

record sqs_message =
  sm_videoUrl :: string
  sm_captionsUrl :: string
  sm_title :: string
  sm_fontFamily :: string
  sm_outName :: string

text \<open>
  What a run does to the outside, in program order: requests to the analysis and batch
  backends (with the pipeline id, and the batch index), events sent through \<^verbatim>\<open>inngest.send\<close>,
  messages put on the render queue, and calls of the credit-deduction route with the HTTP
  status they got.
\<close>

datatype effect =
    Analysis_request string
  | Batch_request string nat
  | Send_pipeline_complete pipeline_complete_data
  | Send_phase2_start string analysis_result
  | Send_phase3_start string analysis_result "batch_processing_result list"
  | Sqs_send sqs_message
  | Deduct_credits_call string int nat

text \<open>
  The state of the system between steps. \<open>db_error\<close> is the datastore's condition during the
  run: when set, every query answers with that error and changes nothing; \<open>sqs_error\<close> is the
  same for the render queue.
\<close>

record system_state =
  generated_clips :: "generated_clip list"
  pipelines :: "pipeline list"
  user_profiles :: "user_profile list"
  render_jobs :: "render_job list"
  db_error :: "string option"
  sqs_error :: "string option"
  effects :: "effect list"

text \<open>\<^verbatim>\<open>.update(values).eq(column, key)\<close>: every matching row is rewritten.\<close>

definition update_where :: "('r \<Rightarrow> bool) \<Rightarrow> ('r \<Rightarrow> 'r) \<Rightarrow> 'r list \<Rightarrow> 'r list" where
  "update_where p f rows = map (\<lambda>r. if p r then f r else r) rows"

definition update_generated_clips ::
  "(generated_clip \<Rightarrow> bool) \<Rightarrow> (generated_clip \<Rightarrow> generated_clip) \<Rightarrow> system_state
     \<Rightarrow> string option \<times> system_state" where
  "update_generated_clips p f st =
     (case db_error st of
        Some e \<Rightarrow> (Some e, st)
      | None \<Rightarrow> (None, st\<lparr>generated_clips := update_where p f (generated_clips st)\<rparr>))"

definition update_pipelines ::
  "(pipeline \<Rightarrow> bool) \<Rightarrow> (pipeline \<Rightarrow> pipeline) \<Rightarrow> system_state
     \<Rightarrow> string option \<times> system_state" where
  "update_pipelines p f st =
     (case db_error st of
        Some e \<Rightarrow> (Some e, st)
      | None \<Rightarrow> (None, st\<lparr>pipelines := update_where p f (pipelines st)\<rparr>))"

definition update_render_jobs ::
  "(render_job \<Rightarrow> bool) \<Rightarrow> (render_job \<Rightarrow> render_job) \<Rightarrow> system_state
     \<Rightarrow> string option \<times> system_state" where
  "update_render_jobs p f st =
     (case db_error st of
        Some e \<Rightarrow> (Some e, st)
      | None \<Rightarrow> (None, st\<lparr>render_jobs := update_where p f (render_jobs st)\<rparr>))"

text \<open>\<^verbatim>\<open>.select(...).eq('pipeline_id', pipelineId)\<close>: the rows (\<open>data\<close>), or the error.\<close>

definition select_clips_of_pipeline :: "string \<Rightarrow> system_state \<Rightarrow> string + generated_clip list" where
  "select_clips_of_pipeline pipelineId st =
     (case db_error st of
        Some e \<Rightarrow> Inl e
      | None \<Rightarrow> Inr (filter (\<lambda>c. gc_pipeline_id c = pipelineId) (generated_clips st)))"

definition send_effect :: "effect \<Rightarrow> system_state \<Rightarrow> system_state" where
  "send_effect e st = st\<lparr>effects := effects st @ [e]\<rparr>"

text \<open>Sequencing of steps: a step that throws ends the run with what it threw.\<close>

definition then_step ::
  "(thrown + 'a) \<times> system_state \<Rightarrow> ('a \<Rightarrow> system_state \<Rightarrow> (thrown + 'b) \<times> system_state)
     \<Rightarrow> (thrown + 'b) \<times> system_state" where
  "then_step r f = (case r of (Inl e, st) \<Rightarrow> (Inl e, st) | (Inr a, st) \<Rightarrow> f a st)"

section \<open>Completion Aggregator: handleClipCompletion\<close>

text \<open>The data of a \<^verbatim>\<open>remotion.clip.completed\<close> event.\<close>

record clip_completed_event =
  cc_type :: string
  cc_clipId :: string
  cc_pipelineId :: string
  cc_userId :: string
  cc_outputKey :: "string option"
  cc_r2Url :: "string option"
  cc_webhook_error :: "string option"

text \<open>What \<^verbatim>\<open>check-pipeline-completion\<close> returns when the query succeeds.\<close>

record completion_stats =
  cs_complete :: bool
  cs_totalClips :: nat
  cs_completedClips :: nat
  cs_failedClips :: nat

definition hcc_update_render_job ::
  "clip_completed_event \<Rightarrow> system_state \<Rightarrow> (thrown + unit) \<times> system_state" where
  "hcc_update_render_job ev st =
     (let upd = (\<lambda>j. let j1 = j\<lparr>rj_remotion_status :=
                                   (if cc_type ev = ''success'' then ''completed'' else ''failed''),
                                 rj_remotion_progress :=
                                   (if cc_type ev = ''success'' then 100 else 0)\<rparr>
                      in if cc_type ev = ''success'' \<and> truthy (cc_outputKey ev)
                         then j1\<lparr>rj_output_s3_key := cc_outputKey ev,
                                 rj_output_r2_url := cc_r2Url ev\<rparr>
                         else if cc_type ev = ''error''
                         then j1\<lparr>rj_error_message :=
                                   Some (or_else (cc_webhook_error ev) ''Render failed'')\<rparr>
                         else j1)
      in case update_render_jobs (\<lambda>j. rj_clip_id j = cc_clipId ev) upd st of
           (Some e, st') \<Rightarrow> (Inl (Error (''Failed to update render job: '' @ e)), st')
         | (None, st') \<Rightarrow> (Inr (), st'))"

definition hcc_update_clip_status ::
  "clip_completed_event \<Rightarrow> system_state \<Rightarrow> (thrown + unit) \<times> system_state" where
  "hcc_update_clip_status ev st =
     (let upd = (\<lambda>c. let c1 = c\<lparr>gc_status :=
                                   (if cc_type ev = ''success'' then ''COMPLETED'' else ''FAILED'')\<rparr>
                      in if cc_type ev = ''success'' \<and> truthy (cc_r2Url ev)
                         then c1\<lparr>gc_r2_final_url := cc_r2Url ev\<rparr>
                         else c1)
      in case update_generated_clips (\<lambda>c. gc_id c = cc_clipId ev) upd st of
           (Some e, st') \<Rightarrow> (Inl (Error (''Failed to update clip status: '' @ e)), st')
         | (None, st') \<Rightarrow> (Inr (), st'))"

definition hcc_check_pipeline_completion :: "string \<Rightarrow> system_state \<Rightarrow> completion_stats option" where
  "hcc_check_pipeline_completion pipelineId st =
     (case select_clips_of_pipeline pipelineId st of
        Inl e \<Rightarrow> None
      | Inr clips \<Rightarrow>
          (let totalClips = length clips;
               completedClips = length (filter (\<lambda>c. gc_status c = ''COMPLETED'') clips);
               failedClips = length (filter (\<lambda>c. gc_status c = ''FAILED'') clips)
           in if completedClips + failedClips = totalClips \<and> totalClips > 0
              then Some \<lparr>cs_complete = True, cs_totalClips = totalClips,
                         cs_completedClips = completedClips, cs_failedClips = failedClips\<rparr>
              else Some \<lparr>cs_complete = False, cs_totalClips = totalClips,
                         cs_completedClips = completedClips, cs_failedClips = failedClips\<rparr>))"

definition handleClipCompletion ::
  "clip_completed_event \<Rightarrow> system_state \<Rightarrow> (thrown + completion_stats option) \<times> system_state" where
  "handleClipCompletion ev st =
     then_step (hcc_update_render_job ev st) (\<lambda>_ st1.
     then_step (hcc_update_clip_status ev st1) (\<lambda>_ st2.
       (let pipelineComplete = hcc_check_pipeline_completion (cc_pipelineId ev) st2
        in case pipelineComplete of
             None \<Rightarrow> (Inr pipelineComplete, st2)
           | Some stats \<Rightarrow>
               if cs_complete stats
               then (Inr pipelineComplete,
                     send_effect (Send_pipeline_complete
                        \<lparr>pc_pipelineId = cc_pipelineId ev, pc_userId = cc_userId ev,
                         pc_totalClips = cs_totalClips stats,
                         pc_completedClips = cs_completedClips stats,
                         pc_failedClips = cs_failedClips stats\<rparr>) st2)
               else (Inr pipelineComplete, st2))))"

text \<open>
  \<^verbatim>\<open>handlePipelineCompletion\<close>, run for each \<^verbatim>\<open>remotion.pipeline.complete\<close> event: it writes the
  pipeline row; its two further steps only log and read.
\<close>

definition handlePipelineCompletion ::
  "pipeline_complete_data \<Rightarrow> system_state \<Rightarrow> (thrown + unit) \<times> system_state" where
  "handlePipelineCompletion d st =
     (case update_pipelines (\<lambda>p. pl_id p = pc_pipelineId d)
             (\<lambda>p. p\<lparr>pl_status := ''COMPLETED'',
                    pl_successful_clips := Some (int (pc_completedClips d)),
                    pl_failed_clips := Some (int (pc_failedClips d))\<rparr>) st of
        (Some e, st') \<Rightarrow> (Inl (Error (''Failed to update pipeline status: '' @ e)), st')
      | (None, st') \<Rightarrow> (Inr (), st'))"

section \<open>Completion handling in the render monitor: handleRenderCompleted\<close>

record render_complete_event =
  rc_status :: string
  rc_error :: "string option"
  rc_clipId :: string
  rc_pipelineId :: string
  rc_r2_final_url :: "string option"

text \<open>
  The two steps of \<^verbatim>\<open>handleRenderCompleted\<close>. Neither looks at the error a query returns; a
  field that is \<^verbatim>\<open>undefined\<close> is not sent, so the column keeps its value.
\<close>

definition hrc_update_final_status :: "render_complete_event \<Rightarrow> system_state \<Rightarrow> system_state" where
  "hrc_update_final_status ev st =
     (if rc_status ev = ''success''
      then snd (update_generated_clips (\<lambda>c. gc_id c = rc_clipId ev)
                  (\<lambda>c. c\<lparr>gc_status := ''COMPLETED'',
                         gc_r2_final_url :=
                           (case rc_r2_final_url ev of None \<Rightarrow> gc_r2_final_url c
                            | Some u \<Rightarrow> Some u)\<rparr>) st)
      else snd (update_generated_clips (\<lambda>c. gc_id c = rc_clipId ev)
                  (\<lambda>c. c\<lparr>gc_status := ''FAILED'',
                         gc_error_message := Some (or_else (rc_error ev) ''Render failed'')\<rparr>) st))"

definition hrc_check_pipeline_completion :: "render_complete_event \<Rightarrow> system_state \<Rightarrow> system_state" where
  "hrc_check_pipeline_completion ev st =
     (case select_clips_of_pipeline (rc_pipelineId ev) st of
        Inl e \<Rightarrow> st
      | Inr clips \<Rightarrow>
          (let totalClips = length clips;
               completedClips = length (filter (\<lambda>c. gc_status c = ''COMPLETED'') clips);
               failedClips = length (filter (\<lambda>c. gc_status c = ''FAILED'') clips);
               finishedClips = completedClips + failedClips
           in if finishedClips = totalClips
              then snd (update_pipelines (\<lambda>p. pl_id p = rc_pipelineId ev)
                          (\<lambda>p. p\<lparr>pl_status := ''completed'',
                                 pl_successful_clips := Some (int completedClips),
                                 pl_failed_clips := Some (int failedClips)\<rparr>) st)
              else st))"

definition handleRenderCompleted :: "render_complete_event \<Rightarrow> system_state \<Rightarrow> system_state" where
  "handleRenderCompleted ev st = hrc_check_pipeline_completion ev (hrc_update_final_status ev st)"

section \<open>Finished clips and triggered completions\<close>

text \<open>A clip counts as finished when its status is \<^verbatim>\<open>COMPLETED\<close> or \<^verbatim>\<open>FAILED\<close>.\<close>

definition terminal :: "generated_clip \<Rightarrow> bool" where
  "terminal c \<longleftrightarrow> gc_status c = ''COMPLETED'' \<or> gc_status c = ''FAILED''"

definition pipeline_clips :: "string \<Rightarrow> system_state \<Rightarrow> generated_clip list" where
  "pipeline_clips P st = filter (\<lambda>c. gc_pipeline_id c = P) (generated_clips st)"

text \<open>The ids of the clips of a pipeline that are not finished yet.\<close>

definition pending_clip_ids :: "string \<Rightarrow> system_state \<Rightarrow> string set" where
  "pending_clip_ids P st = set (map gc_id (filter (\<lambda>c. \<not> terminal c) (pipeline_clips P st)))"

text \<open>How often the completion of pipeline \<open>P\<close> has been triggered so far.\<close>

definition is_completion_of :: "string \<Rightarrow> effect \<Rightarrow> bool" where
  "is_completion_of P e = (case e of Send_pipeline_complete d \<Rightarrow> pc_pipelineId d = P | _ \<Rightarrow> False)"

definition completions :: "string \<Rightarrow> system_state \<Rightarrow> nat" where
  "completions P st = length (filter (is_completion_of P) (effects st))"

section \<open>Example data\<close>

definition queued_clip :: "string \<Rightarrow> string \<Rightarrow> generated_clip" where
  "queued_clip cid pid =
     \<lparr>gc_id = cid, gc_pipeline_id = pid, gc_status = ''QUEUED'', gc_r2_final_url = None,
      gc_error_message = None\<rparr>"

definition rendering_pipeline :: "string \<Rightarrow> pipeline" where
  "rendering_pipeline pid =
     \<lparr>pl_id = pid, pl_status = ''remotion_rendering_queued'', pl_total_clips = None,
      pl_successful_clips = None, pl_failed_clips = None, pl_error_message = None,
      pl_error_phase = None\<rparr>"

definition state_with_clips :: "generated_clip list \<Rightarrow> system_state" where
  "state_with_clips clips =
     \<lparr>generated_clips = clips, pipelines = [rendering_pipeline ''p1''],
      user_profiles = [\<lparr>up_id = ''u1'', up_credits = 10, up_is_blocked = False,
                        up_total_credits_used = 0\<rparr>],
      render_jobs = [], db_error = None, sqs_error = None, effects = []\<rparr>"

definition success_notification :: "string \<Rightarrow> clip_completed_event" where
  "success_notification cid =
     \<lparr>cc_type = ''success'', cc_clipId = cid, cc_pipelineId = ''p1'', cc_userId = ''u1'',
      cc_outputKey = Some (cid @ ''.mp4''), cc_r2Url = Some (''https://r2/'' @ cid @ ''.mp4''),
      cc_webhook_error = None\<rparr>"

section \<open>Quota Guard: checkUserQuota\<close>

text \<open>
  \<^verbatim>\<open>checkUserQuota\<close> of production-functions.ts. The helpers \<^verbatim>\<open>getUserQuota\<close> and \<^verbatim>\<open>getSystemLoad\<close>
  it awaits are not defined in the repository (their stubs are commented out), so what they
  return is a parameter here.
\<close>

record user_quota =
  uq_user_id :: string
  uq_daily_requests :: int
  uq_concurrent_jobs :: int

record system_load =
  sl_concurrent_pipelines :: int

record quota_decision =
  qd_allowed :: bool
  qd_reason :: "string option"

definition checkUserQuota ::
  "(string \<Rightarrow> user_quota) \<Rightarrow> system_load \<Rightarrow> string \<Rightarrow> quota_decision" where
  "checkUserQuota getUserQuota getSystemLoad user_id =
     (let userQuota = getUserQuota user_id
      in if uq_daily_requests userQuota \<ge> 20
         then \<lparr>qd_allowed = False, qd_reason = Some ''Daily quota exceeded (20 requests/day)''\<rparr>
         else if uq_concurrent_jobs userQuota \<ge> 3
         then \<lparr>qd_allowed = False, qd_reason = Some ''Too many concurrent jobs (max 3)''\<rparr>
         else (let systemLoad = getSystemLoad
               in if sl_concurrent_pipelines systemLoad \<ge> 8
                  then \<lparr>qd_allowed = False,
                        qd_reason = Some ''System at capacity, please try again in a few minutes''\<rparr>
                  else \<lparr>qd_allowed = True, qd_reason = None\<rparr>))"

section \<open>Inngest steps and retries\<close>

text \<open>
  The contract of the Inngest library that the functions are written against: a step that
  throws is run again, up to the \<^verbatim>\<open>retries\<close> of its function, unless what it threw is a
  \<^verbatim>\<open>NonRetriableError\<close>. The step is given the number of the attempt (from 0), since the
  outside world may answer differently each time; the last component of the result counts
  the attempts made.
\<close>

fun run_step ::
  "nat \<Rightarrow> (nat \<Rightarrow> system_state \<Rightarrow> (thrown + 'a) \<times> system_state) \<Rightarrow> nat \<Rightarrow> system_state
     \<Rightarrow> (thrown + 'a) \<times> system_state \<times> nat" where
  "run_step 0 step attempt st = (case step attempt st of (r, st') \<Rightarrow> (r, st', Suc attempt))"
| "run_step (Suc retries) step attempt st =
     (case step attempt st of
        (Inl (Error m), st') \<Rightarrow> run_step retries step (Suc attempt) st'
      | (r, st') \<Rightarrow> (r, st', Suc attempt))"

text \<open>Steps in sequence inside a function with the given number of retries.\<close>

definition step_run ::
  "nat \<Rightarrow> (nat \<Rightarrow> system_state \<Rightarrow> (thrown + 'a) \<times> system_state) \<Rightarrow> system_state
     \<Rightarrow> (thrown + 'a) \<times> system_state" where
  "step_run retries step st = (case run_step retries step 0 st of (r, st', n) \<Rightarrow> (r, st'))"

section \<open>Phase 1: phase1AnalysisProcessor\<close>

text \<open>The data of a \<^verbatim>\<open>phase1.analysis.start\<close> event; any field may be missing.\<close>

record phase1_event =
  p1_youtubeUrl :: "string option"
  p1_userId :: "string option"
  p1_fontFamily :: "string option"
  p1_uploadedFileId :: "string option"
  p1_downloadUrl :: "string option"
  p1_videoId :: "string option"
  p1_title :: "string option"

record pipeline_data =
  pd_youtubeUrl :: string
  pd_userId :: string
  pd_fontFamily :: string
  pd_pipelineId :: string
  pd_userCredits :: int

text \<open>
  \<^verbatim>\<open>.select(...).eq('id', userId).single()\<close>: the row if exactly one matches, an error
  otherwise.
\<close>

definition select_user_single :: "string \<Rightarrow> system_state \<Rightarrow> string + user_profile" where
  "select_user_single userId st =
     (case db_error st of
        Some e \<Rightarrow> Inl e
      | None \<Rightarrow>
          (case filter (\<lambda>u. up_id u = userId) (user_profiles st) of
             [u] \<Rightarrow> Inr u
           | _ \<Rightarrow> Inl ''JSON object requested, multiple (or no) rows returned''))"

definition user_validation ::
  "phase1_event \<Rightarrow> system_state \<Rightarrow> (thrown + pipeline_data) \<times> system_state" where
  "user_validation ev st =
     (if \<not> truthy (p1_youtubeUrl ev) \<or> \<not> truthy (p1_userId ev)
         \<or> \<not> truthy (p1_uploadedFileId ev) \<or> \<not> truthy (p1_downloadUrl ev)
      then (Inl (Error ''Missing required data: youtubeUrl, userId, uploadedFileId, or downloadUrl''),
            st)
      else (case select_user_single (the (p1_userId ev)) st of
              Inl e \<Rightarrow> (Inl (Error (''User not found: '' @ e)), st)
            | Inr userProfile \<Rightarrow>
                if up_is_blocked userProfile
                then (Inl (Error ''Account is blocked''), st)
                else if up_credits userProfile \<le> 0
                then (Inl (Error ''User has no credits remaining''),
                      snd (update_pipelines (\<lambda>p. pl_id p = the (p1_uploadedFileId ev))
                             (\<lambda>p. p\<lparr>pl_status := ''no credits''\<rparr>) st))
                else (Inr \<lparr>pd_youtubeUrl = the (p1_youtubeUrl ev),
                           pd_userId = the (p1_userId ev),
                           pd_fontFamily = or_else (p1_fontFamily ev) ''anton'',
                           pd_pipelineId = the (p1_uploadedFileId ev),
                           pd_userCredits = up_credits userProfile\<rparr>, st)))"

definition update_pipeline_status ::
  "pipeline_data \<Rightarrow> system_state \<Rightarrow> (thrown + unit) \<times> system_state" where
  "update_pipeline_status pipelineData st =
     (case update_pipelines (\<lambda>p. pl_id p = pd_pipelineId pipelineData)
             (\<lambda>p. p\<lparr>pl_status := ''processing''\<rparr>) st of
        (Some e, st') \<Rightarrow> (Inl (Error (''Failed to update pipeline: '' @ e)), st')
      | (None, st') \<Rightarrow> (Inr (), st'))"

text \<open>
  The answer to the POST to the analysis backend: the call is aborted by the timeout, fails
  in the network, or gets a response with a status, a status text, a body text and, when the
  body parses as JSON, the analysis result.
\<close>

record http_response =
  hr_status :: nat
  hr_statusText :: string
  hr_text :: string
  hr_json :: "analysis_result option"

datatype analysis_fetch = Fetch_aborted | Fetch_failed string | Fetch_response http_response

definition status_line :: "http_response \<Rightarrow> string" where
  "status_line response =
     show_nat (hr_status response) @ '' '' @ hr_statusText response @ '' - '' @ hr_text response"

text \<open>The part of the step after \<^verbatim>\<open>if (!response.ok)\<close>.\<close>

definition throw_for_status :: "http_response \<Rightarrow> thrown" where
  "throw_for_status response =
     (if hr_status response = 401 \<or> hr_status response = 403
      then NonRetriableError (''Authentication failed: '' @ status_line response)
      else if hr_status response \<ge> 400 \<and> hr_status response < 500
      then NonRetriableError (''Client error: '' @ status_line response)
      else Error (''Analysis phase failed: '' @ status_line response))"

text \<open>The branch \<^verbatim>\<open>if (result.status === "error")\<close>: the pipeline row is written, then the step throws.\<close>

definition persist_analysis_failure ::
  "analysis_result \<Rightarrow> string \<Rightarrow> system_state \<Rightarrow> system_state" where
  "persist_analysis_failure result pipelineId st =
     snd (update_pipelines (\<lambda>p. pl_id p = pipelineId)
            (\<lambda>p. p\<lparr>pl_status := ''failed'',
                   pl_error_message :=
                     (case ar_error result of None \<Rightarrow> pl_error_message p | Some e \<Rightarrow> Some e),
                   pl_error_phase := Some (or_else (ar_error_phase result) ''analysis'')\<rparr>) st)"

definition handle_analysis_response ::
  "http_response \<Rightarrow> string \<Rightarrow> system_state \<Rightarrow> (thrown + analysis_result) \<times> system_state" where
  "handle_analysis_response response pipelineId st =
     (if \<not> response_ok (hr_status response) then (Inl (throw_for_status response), st)
      else (case hr_json response of
              None \<Rightarrow> (Inl (Error ''Unexpected token in JSON''), st)
            | Some result \<Rightarrow>
                if ar_status result = ''error''
                then (Inl (Error (''Analysis phase failed: '' @ undefined_or (ar_error result)
                                  @ ''. Pipeline stopped.'')),
                      persist_analysis_failure result pipelineId st)
                else (Inr result, st)))"

text \<open>The \<^verbatim>\<open>modal-analysis\<close> step of \<^verbatim>\<open>phase1AnalysisProcessor\<close>.\<close>

definition modal_analysis ::
  "string option \<Rightarrow> analysis_fetch \<Rightarrow> pipeline_data \<Rightarrow> system_state
     \<Rightarrow> (thrown + analysis_result) \<times> system_state" where
  "modal_analysis authToken outcome pipelineData st =
     (if \<not> truthy authToken
      then (Inl (Error ''Missing CLIPPER_SECRET_KEY or AUTH_TOKEN environment variable''), st)
      else (let st1 = send_effect (Analysis_request (pd_pipelineId pipelineData)) st
            in case outcome of
                 Fetch_aborted \<Rightarrow> (Inl (Error ''Modal analysis timed out after 8 minutes''), st1)
               | Fetch_failed m \<Rightarrow> (Inl (Error m), st1)
               | Fetch_response response \<Rightarrow>
                   handle_analysis_response response (pd_pipelineId pipelineData) st1))"

text \<open>
  The \<^verbatim>\<open>phase1-analysis\<close> step of \<^verbatim>\<open>unifiedPipelineProcessor\<close>: the same, except that a
  timeout is written to the pipeline row and thrown as non-retriable.
\<close>

definition unified_phase1_analysis ::
  "string option \<Rightarrow> analysis_fetch \<Rightarrow> pipeline_data \<Rightarrow> system_state
     \<Rightarrow> (thrown + analysis_result) \<times> system_state" where
  "unified_phase1_analysis authToken outcome pipelineData st =
     (if \<not> truthy authToken
      then (Inl (Error ''Missing CLIPPER_SECRET_KEY or AUTH_TOKEN environment variable''), st)
      else (let st1 = send_effect (Analysis_request (pd_pipelineId pipelineData)) st
            in case outcome of
                 Fetch_aborted \<Rightarrow>
                   (Inl (NonRetriableError ''Modal analysis timed out after 8 minutes''),
                    snd (update_pipelines (\<lambda>p. pl_id p = pd_pipelineId pipelineData)
                           (\<lambda>p. p\<lparr>pl_status := ''timeout'',
                                  pl_error_message :=
                                    Some ''Modal analysis timed out after 8 minutes'',
                                  pl_error_phase := Some ''analysis''\<rparr>) st1))
               | Fetch_failed m \<Rightarrow> (Inl (Error m), st1)
               | Fetch_response response \<Rightarrow>
                   handle_analysis_response response (pd_pipelineId pipelineData) st1))"

definition update_pipeline_after_analysis ::
  "pipeline_data \<Rightarrow> analysis_result \<Rightarrow> system_state \<Rightarrow> (thrown + unit) \<times> system_state" where
  "update_pipeline_after_analysis pipelineData analysisResult st =
     (case update_pipelines (\<lambda>p. pl_id p = pd_pipelineId pipelineData)
             (\<lambda>p. p\<lparr>pl_status := ''analysis_completed'',
                    pl_total_clips := Some (int (length (ar_viral_moments analysisResult)))\<rparr>) st of
        (Some e, st') \<Rightarrow> (Inl (Error (''Failed to update pipeline after analysis: '' @ e)), st')
      | (None, st') \<Rightarrow> (Inr (), st'))"

definition trigger_phase2 ::
  "phase1_event \<Rightarrow> analysis_result \<Rightarrow> system_state \<Rightarrow> (thrown + unit) \<times> system_state" where
  "trigger_phase2 ev analysisResult st =
     (Inr (), send_effect (Send_phase2_start (undefined_or (p1_uploadedFileId ev)) analysisResult) st)"

text \<open>
  The function: its five steps in order, each under \<^verbatim>\<open>retries: 1\<close>. \<open>fetch\<close> gives the
  backend's answer to each attempt of the analysis step.
\<close>

definition phase1AnalysisProcessor ::
  "phase1_event \<Rightarrow> string option \<Rightarrow> (nat \<Rightarrow> analysis_fetch) \<Rightarrow> system_state
     \<Rightarrow> (thrown + unit) \<times> system_state" where
  "phase1AnalysisProcessor ev authToken fetch st =
     then_step (step_run 1 (\<lambda>_. user_validation ev) st) (\<lambda>pipelineData st1.
     then_step (step_run 1 (\<lambda>_. update_pipeline_status pipelineData) st1) (\<lambda>_ st2.
     then_step (step_run 1 (\<lambda>attempt. modal_analysis authToken (fetch attempt) pipelineData) st2)
       (\<lambda>analysisResult st3.
     then_step (step_run 1 (\<lambda>_. update_pipeline_after_analysis pipelineData analysisResult) st3)
       (\<lambda>_ st4.
     step_run 1 (\<lambda>_. trigger_phase2 ev analysisResult) st4))))"

section \<open>Example data for phase 1\<close>

definition valid_phase1_event :: phase1_event where
  "valid_phase1_event =
     \<lparr>p1_youtubeUrl = Some ''https://youtu.be/x'', p1_userId = Some ''u1'',
      p1_fontFamily = None, p1_uploadedFileId = Some ''p1'',
      p1_downloadUrl = Some ''https://cdn/v.mp4'', p1_videoId = Some ''x'',
      p1_title = Some ''T''\<rparr>"

definition state_with_user :: "int \<Rightarrow> bool \<Rightarrow> system_state" where
  "state_with_user credits blocked =
     \<lparr>generated_clips = [],
      pipelines = [\<lparr>pl_id = ''p1'', pl_status = ''pending'', pl_total_clips = None,
                    pl_successful_clips = None, pl_failed_clips = None,
                    pl_error_message = None, pl_error_phase = None\<rparr>],
      user_profiles = [\<lparr>up_id = ''u1'', up_credits = credits, up_is_blocked = blocked,
                        up_total_credits_used = 0\<rparr>],
      render_jobs = [], db_error = None, sqs_error = None, effects = []\<rparr>"

definition error_payload :: http_response where
  "error_payload =
     \<lparr>hr_status = 200, hr_statusText = ''OK'', hr_text = '''',
      hr_json = Some \<lparr>ar_status = ''error'', ar_run_id = '''', ar_viral_moments = [],
                       ar_error = Some ''download failed'', ar_error_phase = Some ''download''\<rparr>\<rparr>"

definition success_payload :: http_response where
  "success_payload =
     \<lparr>hr_status = 200, hr_statusText = ''OK'', hr_text = '''',
      hr_json = Some \<lparr>ar_status = ''success'', ar_run_id = ''r1'',
                       ar_viral_moments = [''m0'', ''m1''],
                       ar_error = None, ar_error_phase = None\<rparr>\<rparr>"

definition example_pipeline_data :: pipeline_data where
  "example_pipeline_data =
     \<lparr>pd_youtubeUrl = ''https://youtu.be/x'', pd_userId = ''u1'', pd_fontFamily = ''anton'',
      pd_pipelineId = ''p1'', pd_userCredits = 5\<rparr>"

definition error_response :: "nat \<Rightarrow> string \<Rightarrow> http_response" where
  "error_response status statusText =
     \<lparr>hr_status = status, hr_statusText = statusText, hr_text = ''no'', hr_json = None\<rparr>"

definition idle_quota :: "string \<Rightarrow> user_quota" where
  "idle_quota user_id = \<lparr>uq_user_id = user_id, uq_daily_requests = 0, uq_concurrent_jobs = 0\<rparr>"

section \<open>Phase 2: processing the batches\<close>

text \<open>
  The answer to the POST of one batch to the batch backend: aborted by the 20-minute timeout,
  failed in the network, or a response with status, status text and, when the body parses,
  the batch result.
\<close>

datatype batch_fetch =
    Batch_aborted
  | Batch_failed string
  | Batch_response nat string "batch_processing_result option"

text \<open>
  The async function mapped over the batches in the \<^verbatim>\<open>process-batches\<close> step of
  \<^verbatim>\<open>phase2BatchProcessor\<close>: the value its promise settles with, \<open>Inl\<close> for a rejection.
\<close>

definition process_batch :: "string batch_group \<Rightarrow> batch_fetch \<Rightarrow> thrown + batch_processing_result" where
  "process_batch batch outcome =
     (case outcome of
        Batch_aborted \<Rightarrow>
          Inl (Error (''Batch '' @ show_nat (batch_index batch) @ '' timed out after 20 minutes''))
      | Batch_failed m \<Rightarrow> Inl (Error m)
      | Batch_response status statusText body \<Rightarrow>
          if \<not> response_ok status
          then Inl (Error (''Batch '' @ show_nat (batch_index batch) @ '' failed: ''
                           @ show_nat status @ '' '' @ statusText))
          else (case body of
                  None \<Rightarrow> Inl (Error ''Unexpected token in JSON'')
                | Some result \<Rightarrow>
                    if br_status result = ''error''
                    then Inl (Error (''Batch '' @ show_nat (batch_index batch) @ '' failed: ''
                                     @ undefined_or (br_error result)))
                    else Inr result))"

text \<open>
  The same function in \<^verbatim>\<open>unifiedPipelineProcessor\<close>: its \<^verbatim>\<open>catch\<close> rethrows whatever was
  thrown, the abort included.
\<close>

definition unified_process_batch ::
  "string batch_group \<Rightarrow> batch_fetch \<Rightarrow> thrown + batch_processing_result" where
  "unified_process_batch batch outcome =
     (case outcome of
        Batch_aborted \<Rightarrow> Inl (Error ''This operation was aborted'')
      | Batch_failed m \<Rightarrow> Inl (Error m)
      | Batch_response status statusText body \<Rightarrow>
          if \<not> response_ok status
          then Inl (Error (''Batch '' @ show_nat (batch_index batch) @ '' failed: ''
                           @ show_nat status @ '' '' @ statusText))
          else (case body of
                  None \<Rightarrow> Inl (Error ''Unexpected token in JSON'')
                | Some result \<Rightarrow>
                    if br_status result = ''error''
                    then Inl (Error (''Batch '' @ show_nat (batch_index batch) @ '' failed: ''
                                     @ undefined_or (br_error result)))
                    else Inr result))"

text \<open>
  \<^verbatim>\<open>await Promise.all(promises)\<close>: the values when every promise is fulfilled, otherwise a
  rejection. Time is not modelled, so of several rejections the first in array order is
  taken.
\<close>

fun promise_all :: "(thrown + 'a) list \<Rightarrow> thrown + 'a list" where
  "promise_all [] = Inr []"
| "promise_all (Inl e # ps) = Inl e"
| "promise_all (Inr v # ps) = (case promise_all ps of Inl e \<Rightarrow> Inl e | Inr vs \<Rightarrow> Inr (v # vs))"

text \<open>
  The loop that awaits the promises \<^verbatim>\<open>maxConcurrentBatches\<close> at a time. The promises were all
  created, and their requests started, by the \<^verbatim>\<open>map\<close> before the loop.
\<close>

function await_in_chunks :: "(thrown + 'a) list \<Rightarrow> nat \<Rightarrow> 'a list \<Rightarrow> thrown + 'a list" where
  "await_in_chunks batchPromises i results =
     (if i < length batchPromises
      then (case promise_all (js_slice batchPromises i (i + maxConcurrentBatches)) of
              Inl e \<Rightarrow> Inl e
            | Inr batchResults \<Rightarrow>
                await_in_chunks batchPromises (i + maxConcurrentBatches) (results @ batchResults))
      else Inr results)"
  by pat_completeness auto
termination
  by (relation "measure (\<lambda>(ps, i, rs). length ps - i)") (auto simp: maxConcurrentBatches_def)

declare await_in_chunks.simps [simp del]

definition process_batches_with ::
  "(string batch_group \<Rightarrow> batch_fetch \<Rightarrow> thrown + batch_processing_result)
     \<Rightarrow> string \<Rightarrow> string batch_group list \<Rightarrow> (nat \<Rightarrow> batch_fetch) \<Rightarrow> system_state
     \<Rightarrow> (thrown + batch_processing_result list) \<times> system_state" where
  "process_batches_with one uploadedFileId batchGroups fetch st =
     (let batchPromises = map (\<lambda>batch. one batch (fetch (batch_index batch))) batchGroups;
          st1 = fold (\<lambda>batch. send_effect (Batch_request uploadedFileId (batch_index batch)))
                  batchGroups st
      in (await_in_chunks batchPromises 0 [], st1))"

definition process_batches ::
  "string \<Rightarrow> string batch_group list \<Rightarrow> (nat \<Rightarrow> batch_fetch) \<Rightarrow> system_state
     \<Rightarrow> (thrown + batch_processing_result list) \<times> system_state" where
  "process_batches = process_batches_with process_batch"

definition unified_process_batches ::
  "string \<Rightarrow> string batch_group list \<Rightarrow> (nat \<Rightarrow> batch_fetch) \<Rightarrow> system_state
     \<Rightarrow> (thrown + batch_processing_result list) \<times> system_state" where
  "unified_process_batches = process_batches_with unified_process_batch"

text \<open>
  When a batch counts as failed: the request timed out or failed, the response is not 2xx or
  does not parse, or its payload has status \<^verbatim>\<open>"error"\<close>.
\<close>

definition batch_failed :: "batch_fetch \<Rightarrow> bool" where
  "batch_failed outcome =
     (case outcome of
        Batch_aborted \<Rightarrow> True
      | Batch_failed m \<Rightarrow> True
      | Batch_response status statusText body \<Rightarrow>
          \<not> response_ok status
          \<or> (case body of None \<Rightarrow> True | Some result \<Rightarrow> br_status result = ''error''))"

definition batch_result :: "batch_fetch \<Rightarrow> batch_processing_result" where
  "batch_result outcome = (case outcome of Batch_response status statusText (Some result) \<Rightarrow> result)"

section \<open>Example data for phase 2\<close>

definition nine_moments :: "string list" where
  "nine_moments = [''m0'', ''m1'', ''m2'', ''m3'', ''m4'', ''m5'', ''m6'', ''m7'', ''m8'']"

definition example_batches :: "string batch_group list" where
  "example_batches =
     [\<lparr>batch_index = 0,
       viral_moments = [\<lparr>im_moment = ''m0'', original_index = 0\<rparr>,
                        \<lparr>im_moment = ''m1'', original_index = 1\<rparr>,
                        \<lparr>im_moment = ''m2'', original_index = 2\<rparr>,
                        \<lparr>im_moment = ''m3'', original_index = 3\<rparr>],
       clip_count = 4\<rparr>,
      \<lparr>batch_index = 1,
       viral_moments = [\<lparr>im_moment = ''m4'', original_index = 4\<rparr>,
                        \<lparr>im_moment = ''m5'', original_index = 5\<rparr>,
                        \<lparr>im_moment = ''m6'', original_index = 6\<rparr>,
                        \<lparr>im_moment = ''m7'', original_index = 7\<rparr>],
       clip_count = 4\<rparr>,
      \<lparr>batch_index = 2,
       viral_moments = [\<lparr>im_moment = ''m8'', original_index = 8\<rparr>],
       clip_count = 1\<rparr>]"

definition example_clip :: "nat \<Rightarrow> clip_metadata" where
  "example_clip k =
     \<lparr>cm_clip_index = k, cm_title = ''clip'', cm_s3_key = ''r1/clips/'' @ show_nat k @ ''.mp4'',
      cm_captions_key = ''r1/clips/'' @ show_nat k @ ''.vtt'',
      cm_clip_filename = show_nat k @ ''.mp4''\<rparr>"

definition batch_ok :: "nat \<Rightarrow> nat list \<Rightarrow> batch_processing_result" where
  "batch_ok k indices =
     \<lparr>br_status = ''success'', br_batch_index = k,
      br_processed_clips = map example_clip indices, br_failed_clips = [],
      br_clips_processed = int (length indices), br_clips_failed = 0, br_error = None\<rparr>"

definition all_batches_ok :: "nat \<Rightarrow> batch_fetch" where
  "all_batches_ok k =
     Batch_response 200 ''OK''
       (Some (batch_ok k (if k = 0 then [0, 1, 2, 3] else if k = 1 then [4, 5, 6, 7] else [8])))"

definition second_batch_fails :: "nat \<Rightarrow> batch_fetch" where
  "second_batch_fails k =
     (if k = 1 then Batch_response 500 ''Internal Server Error'' None else all_batches_ok k)"

section \<open>Credit Settlement: the deduct-credits route\<close>




section \<open>Phase 3: phase3RemotionProcessor\<close>










definition unified_final_pipeline_update ::
  "pipeline_data \<Rightarrow> system_state \<Rightarrow> (thrown + unit) \<times> system_state" where
  "unified_final_pipeline_update pipelineData st =
     (case update_pipelines (\<lambda>p. pl_id p = pd_pipelineId pipelineData)
             (\<lambda>p. p\<lparr>pl_status := ''completed''\<rparr>) st of
        (Some e, st') \<Rightarrow> (Inl (Error (''Failed to update pipeline as completed: '' @ e)), st')
      | (None, st') \<Rightarrow> (Inr (), st'))"

section \<open>Example data for phase 3\<close>


section \<open>Completion notifications as interleaved runs\<close>

text \<open>
  A completion notification is delivered to one of the two handlers, and each delivery starts
  a run. \<^verbatim>\<open>handleClipCompletion\<close> has \<^verbatim>\<open>concurrency: { limit: 1 }\<close>, which bounds the steps
  that execute at the same time, not the runs that are under way: a run gives way after
  each \<^verbatim>\<open>step.run\<close>. \<^verbatim>\<open>handleRenderCompleted\<close> has limit 25, so its datastore calls overlap
  with those of other runs as well.

  A run therefore advances one atomic action at a time: a step of \<^verbatim>\<open>handleClipCompletion\<close>
  (\<^verbatim>\<open>update-render-job\<close>, \<^verbatim>\<open>update-clip-status\<close>, \<^verbatim>\<open>check-pipeline-completion\<close>,
  \<^verbatim>\<open>trigger-pipeline-completion\<close>), or a datastore call of \<^verbatim>\<open>handleRenderCompleted\<close> (the
  update of the clip, the select of the clips, the write of the pipeline row). Between two
  actions of one run, actions of other runs may take place. A run that has decided to
  complete the pipeline carries what it read to its next action. The actions are those of
  the handlers above: a run left alone does what the handler does
  (\<open>run_alone_handleClipCompletion\<close>, \<open>run_alone_handleRenderCompleted\<close>).
\<close>

datatype notification =
    Clip_completed clip_completed_event
  | Render_complete render_complete_event



datatype run_state =
    At_update_render_job clip_completed_event
  | At_update_clip_status clip_completed_event
  | At_check_completion clip_completed_event
  | At_trigger_completion clip_completed_event completion_stats
  | At_update_final_status render_complete_event
  | At_select_clips render_complete_event
  | At_write_completed render_complete_event nat nat
  | Run_done
  | Run_failed thrown

definition start_run :: "notification \<Rightarrow> run_state" where
  "start_run n =
     (case n of
        Clip_completed ev \<Rightarrow> At_update_render_job ev
      | Render_complete ev \<Rightarrow> At_update_final_status ev)"

text \<open>The next action of a run, in the current state of the datastore.\<close>

fun run_next :: "run_state \<Rightarrow> system_state \<Rightarrow> run_state \<times> system_state" where
  "run_next (At_update_render_job ev) st =
     (case hcc_update_render_job ev st of
        (Inl e, st') \<Rightarrow> (Run_failed e, st')
      | (Inr u, st') \<Rightarrow> (At_update_clip_status ev, st'))"
| "run_next (At_update_clip_status ev) st =
     (case hcc_update_clip_status ev st of
        (Inl e, st') \<Rightarrow> (Run_failed e, st')
      | (Inr u, st') \<Rightarrow> (At_check_completion ev, st'))"
| "run_next (At_check_completion ev) st =
     (case hcc_check_pipeline_completion (cc_pipelineId ev) st of
        None \<Rightarrow> (Run_done, st)
      | Some stats \<Rightarrow>
          if cs_complete stats then (At_trigger_completion ev stats, st) else (Run_done, st))"
| "run_next (At_trigger_completion ev stats) st =
     (Run_done,
      send_effect (Send_pipeline_complete
         \<lparr>pc_pipelineId = cc_pipelineId ev, pc_userId = cc_userId ev,
          pc_totalClips = cs_totalClips stats,
          pc_completedClips = cs_completedClips stats,
          pc_failedClips = cs_failedClips stats\<rparr>) st)"
| "run_next (At_update_final_status ev) st = (At_select_clips ev, hrc_update_final_status ev st)"
| "run_next (At_select_clips ev) st =
     (case select_clips_of_pipeline (rc_pipelineId ev) st of
        Inl e \<Rightarrow> (Run_done, st)
      | Inr clips \<Rightarrow>
          (let totalClips = length clips;
               completedClips = length (filter (\<lambda>c. gc_status c = ''COMPLETED'') clips);
               failedClips = length (filter (\<lambda>c. gc_status c = ''FAILED'') clips);
               finishedClips = completedClips + failedClips
           in if finishedClips = totalClips
              then (At_write_completed ev completedClips failedClips, st)
              else (Run_done, st)))"
| "run_next (At_write_completed ev completedClips failedClips) st =
     (Run_done,
      snd (update_pipelines (\<lambda>p. pl_id p = rc_pipelineId ev)
             (\<lambda>p. p\<lparr>pl_status := ''completed'',
                    pl_successful_clips := Some (int completedClips),
                    pl_failed_clips := Some (int failedClips)\<rparr>) st))"
| "run_next Run_done st = (Run_done, st)"
| "run_next (Run_failed e) st = (Run_failed e, st)"

text \<open>
  The action that carries out the terminal completion of pipeline \<open>P\<close>: sending
  \<^verbatim>\<open>remotion.pipeline.complete\<close> (which starts \<^verbatim>\<open>handlePipelineCompletion\<close>), or writing the
  pipeline row as completed.
\<close>

definition fires :: "string \<Rightarrow> run_state \<Rightarrow> bool" where
  "fires P r =
     (case r of
        At_trigger_completion ev stats \<Rightarrow> cc_pipelineId ev = P
      | At_write_completed ev c f \<Rightarrow> rc_pipelineId ev = P
      | _ \<Rightarrow> False)"



text \<open>A run alone: its first \<open>k\<close> actions.\<close>

definition run_alone :: "nat \<Rightarrow> run_state \<Rightarrow> system_state \<Rightarrow> run_state \<times> system_state" where
  "run_alone k r st = ((\<lambda>(r, st). run_next r st) ^^ k) (r, st)"

text \<open>Bookkeeping for the proofs: the clip a run has still to mark, and what it will do next.\<close>

definition owes :: "run_state \<Rightarrow> string option" where
  "owes r =
     (case r of
        At_update_render_job ev \<Rightarrow> Some (cc_clipId ev)
      | At_update_clip_status ev \<Rightarrow> Some (cc_clipId ev)
      | At_update_final_status ev \<Rightarrow> Some (rc_clipId ev)
      | _ \<Rightarrow> None)"

definition will_check :: "string \<Rightarrow> run_state \<Rightarrow> bool" where
  "will_check P r =
     (case r of
        At_check_completion ev \<Rightarrow> cc_pipelineId ev = P
      | At_select_clips ev \<Rightarrow> rc_pipelineId ev = P
      | _ \<Rightarrow> False)"


definition advance :: "string \<Rightarrow> string set \<Rightarrow> system_state \<Rightarrow> system_state \<Rightarrow> bool" where
  "advance P K st st' \<longleftrightarrow>
     db_error st' = None
     \<and> pending_clip_ids P st' = pending_clip_ids P st - K
     \<and> (pipeline_clips P st' = [] \<longleftrightarrow> pipeline_clips P st = [])"

definition marks :: "run_state \<Rightarrow> string set" where
  "marks r =
     (case r of
        At_update_clip_status ev \<Rightarrow> {cc_clipId ev}
      | At_update_final_status ev \<Rightarrow> {rc_clipId ev}
      | _ \<Rightarrow> {})"





section \<open>Properties of the sort and of the region assignment\<close>

lemma length_js_insert: "length (js_insert cmp x xs) = Suc (length xs)"
  by (induction xs) auto

lemma length_js_sort: "length (js_sort cmp xs) = length xs"
  by (induction xs) (auto simp: length_js_insert)

lemma mset_js_insert: "mset (js_insert cmp x xs) = add_mset x (mset xs)"
  by (induction xs) auto

lemma mset_js_sort: "mset (js_sort cmp xs) = mset xs"
  by (induction xs) (auto simp: mset_js_insert)

lemma set_js_insert: "set (js_insert cmp x xs) = insert x (set xs)"
  by (induction xs) auto

lemma score_desc_insert:
  "sorted_wrt score_desc xs \<Longrightarrow> sorted_wrt score_desc (js_insert score_cmp x xs)"
proof (induction xs)
  case Nil
  then show ?case by simp
next
  case (Cons y ys)
  show ?case
  proof (cases "score_cmp x y \<le> 0")
    case True
    then have xy: "score_desc x y"
      by (simp add: score_cmp_def score_desc_def)
    have "\<forall>z\<in>set ys. score_desc x z"
      using Cons.prems xy by (auto simp: score_desc_def)
    with True xy Cons.prems show ?thesis by simp
  next
    case False
    then have yx: "score_desc y x"
      by (simp add: score_cmp_def score_desc_def)
    from Cons have "sorted_wrt score_desc (js_insert score_cmp x ys)" by simp
    with False yx Cons.prems show ?thesis
      by (auto simp: set_js_insert)
  qed
qed

lemma score_desc_js_sort: "sorted_wrt score_desc (js_sort score_cmp xs)"
  by (induction xs) (auto intro: score_desc_insert)

lemma map_index_length: "length (map_index f xs) = length xs"
  by (simp add: map_index_def)

lemma map_index_nth: "i < length xs \<Longrightarrow> map_index f xs ! i = f (xs ! i) i"
  by (simp add: map_index_def nth_enumerate_eq)

lemma map_dc_clip_map_index:
  "map dc_clip (map_index (\<lambda>c index. \<lparr>dc_clip = c, dc_region = g index\<rparr>) xs) = xs"
  by (rule nth_equalityI) (simp_all add: map_index_length map_index_nth)

lemma distribute_unfold:
  "a < length h \<Longrightarrow>
   distributeClipsAcrossRegions h a =
     ((h @ [h ! a])[length h := js_sort score_cmp (h ! a)],
      map_index (\<lambda>c index.
          \<lparr>dc_clip = c, dc_region = REMOTION_REGIONS ! (index mod length REMOTION_REGIONS)\<rparr>)
        (js_sort score_cmp (h ! a)))"
  by (simp add: distributeClipsAcrossRegions_def spread_copy_def array_sort_def Let_def)

lemma length_REMOTION_REGIONS: "length REMOTION_REGIONS = 10"
  by (simp add: REMOTION_REGIONS_def)

text \<open>
  C10. For the array \<open>h ! a\<close> of clips, \<^verbatim>\<open>distributeClipsAcrossRegions\<close> returns an array of
  the same length whose clips are a permutation of the input in descending order of
  \<^verbatim>\<open>viral_score\<close> (a missing score counting as 0), the clip at position \<open>i\<close> carrying the region
  \<open>REMOTION_REGIONS ! (i mod 10)\<close>; the input array is still what it was. The order is stated
  on the \<^verbatim>\<open>viral_score\<close> field itself.
\<close>

theorem distributeClipsAcrossRegions_sorted_round_robin:
  assumes "a < length h"
    and "distributeClipsAcrossRegions h a = (h', out)"
  shows "length out = length (h ! a)
       \<and> mset (map dc_clip out) = mset (h ! a)
       \<and> sorted_wrt (\<lambda>x y. (case viral_score y of None \<Rightarrow> 0 | Some s \<Rightarrow> s)
                           \<le> (case viral_score x of None \<Rightarrow> 0 | Some s \<Rightarrow> s))
            (map dc_clip out)
       \<and> (\<forall>i j. i < j \<and> j < length out \<longrightarrow>
              (case viral_score (dc_clip (out ! j)) of None \<Rightarrow> 0 | Some s \<Rightarrow> s)
              \<le> (case viral_score (dc_clip (out ! i)) of None \<Rightarrow> 0 | Some s \<Rightarrow> s))
       \<and> (\<forall>i < length out. dc_region (out ! i) = REMOTION_REGIONS ! (i mod 10))
       \<and> h' ! a = h ! a"
proof -
  let ?s = "js_sort score_cmp (h ! a)"
  let ?f = "\<lambda>c index. \<lparr>dc_clip = c,
              dc_region = REMOTION_REGIONS ! (index mod length REMOTION_REGIONS)\<rparr>"
  let ?score = "\<lambda>c. case viral_score c of None \<Rightarrow> (0::int) | Some s \<Rightarrow> s"
  from assms have out: "out = map_index ?f ?s"
    and h': "h' = (h @ [h ! a])[length h := ?s]"
    by (simp_all add: distribute_unfold)
  have clips: "map dc_clip out = ?s"
    unfolding out by (rule map_dc_clip_map_index)
  have 1: "length out = length (h ! a)"
    by (simp add: out map_index_length length_js_sort)
  have 2: "mset (map dc_clip out) = mset (h ! a)"
    by (simp add: clips mset_js_sort)
  have z: "or_zero v = (case v of None \<Rightarrow> 0 | Some s \<Rightarrow> s)" for v
    by (simp add: or_zero_def split: option.splits)
  have "sorted_wrt score_desc ?s" by (rule score_desc_js_sort)
  then have 3: "sorted_wrt (\<lambda>x y. ?score y \<le> ?score x) (map dc_clip out)"
    by (simp add: clips score_desc_def[abs_def] z)
  have nth_order: "?score (dc_clip (out ! j)) \<le> ?score (dc_clip (out ! i))"
    if "i < j \<and> j < length out" for i j
  proof -
    from that have "i < j" "j < length (map dc_clip out)" by simp_all
    from sorted_wrt_nth_less[OF 3 this] that show ?thesis by simp
  qed
  have 4: "\<forall>i < length out. dc_region (out ! i) = REMOTION_REGIONS ! (i mod 10)"
    by (simp add: out map_index_length map_index_nth length_REMOTION_REGIONS)
  have 5: "h' ! a = h ! a"
    using assms(1) by (simp add: h' nth_append)
  from 1 2 3 nth_order 4 5 show ?thesis by blast
qed

text \<open>
  Five clips with scores 5, missing, 9, 7 and 0: the order becomes 9, 7, 5, missing, 0 (the
  last two both count as 0 and keep their input order).
\<close>

theorem distributeClipsAcrossRegions_sorted_round_robin_witness:
  "distributeClipsAcrossRegions
     [[\<lparr>clip_id = ''a'', clip_title = ''A'', viral_score = Some 5\<rparr>,
       \<lparr>clip_id = ''b'', clip_title = ''B'', viral_score = None\<rparr>,
       \<lparr>clip_id = ''c'', clip_title = ''C'', viral_score = Some 9\<rparr>,
       \<lparr>clip_id = ''d'', clip_title = ''D'', viral_score = Some 7\<rparr>,
       \<lparr>clip_id = ''e'', clip_title = ''E'', viral_score = Some 0\<rparr>]] 0
   = ([[\<lparr>clip_id = ''a'', clip_title = ''A'', viral_score = Some 5\<rparr>,
        \<lparr>clip_id = ''b'', clip_title = ''B'', viral_score = None\<rparr>,
        \<lparr>clip_id = ''c'', clip_title = ''C'', viral_score = Some 9\<rparr>,
        \<lparr>clip_id = ''d'', clip_title = ''D'', viral_score = Some 7\<rparr>,
        \<lparr>clip_id = ''e'', clip_title = ''E'', viral_score = Some 0\<rparr>],
       [\<lparr>clip_id = ''c'', clip_title = ''C'', viral_score = Some 9\<rparr>,
        \<lparr>clip_id = ''d'', clip_title = ''D'', viral_score = Some 7\<rparr>,
        \<lparr>clip_id = ''a'', clip_title = ''A'', viral_score = Some 5\<rparr>,
        \<lparr>clip_id = ''b'', clip_title = ''B'', viral_score = None\<rparr>,
        \<lparr>clip_id = ''e'', clip_title = ''E'', viral_score = Some 0\<rparr>]],
      [\<lparr>dc_clip = \<lparr>clip_id = ''c'', clip_title = ''C'', viral_score = Some 9\<rparr>,
        dc_region = ''us-east-1''\<rparr>,
       \<lparr>dc_clip = \<lparr>clip_id = ''d'', clip_title = ''D'', viral_score = Some 7\<rparr>,
        dc_region = ''us-west-2''\<rparr>,
       \<lparr>dc_clip = \<lparr>clip_id = ''a'', clip_title = ''A'', viral_score = Some 5\<rparr>,
        dc_region = ''eu-west-1''\<rparr>,
       \<lparr>dc_clip = \<lparr>clip_id = ''b'', clip_title = ''B'', viral_score = None\<rparr>,
        dc_region = ''ap-southeast-1''\<rparr>,
       \<lparr>dc_clip = \<lparr>clip_id = ''e'', clip_title = ''E'', viral_score = Some 0\<rparr>,
        dc_region = ''ap-southeast-2''\<rparr>])
   \<and> sorted_wrt (\<lambda>x y. (case viral_score y of None \<Rightarrow> 0 | Some s \<Rightarrow> s)
                        \<le> (case viral_score x of None \<Rightarrow> 0 | Some s \<Rightarrow> s))
        (map dc_clip
           [\<lparr>dc_clip = \<lparr>clip_id = ''c'', clip_title = ''C'', viral_score = Some 9\<rparr>,
        dc_region = ''us-east-1''\<rparr>,
       \<lparr>dc_clip = \<lparr>clip_id = ''d'', clip_title = ''D'', viral_score = Some 7\<rparr>,
        dc_region = ''us-west-2''\<rparr>,
       \<lparr>dc_clip = \<lparr>clip_id = ''a'', clip_title = ''A'', viral_score = Some 5\<rparr>,
        dc_region = ''eu-west-1''\<rparr>,
       \<lparr>dc_clip = \<lparr>clip_id = ''b'', clip_title = ''B'', viral_score = None\<rparr>,
        dc_region = ''ap-southeast-1''\<rparr>,
       \<lparr>dc_clip = \<lparr>clip_id = ''e'', clip_title = ''E'', viral_score = Some 0\<rparr>,
        dc_region = ''ap-southeast-2''\<rparr>])"
proof -
  let ?h = "[[\<lparr>clip_id = ''a'', clip_title = ''A'', viral_score = Some 5\<rparr>,
       \<lparr>clip_id = ''b'', clip_title = ''B'', viral_score = None\<rparr>,
       \<lparr>clip_id = ''c'', clip_title = ''C'', viral_score = Some 9\<rparr>,
       \<lparr>clip_id = ''d'', clip_title = ''D'', viral_score = Some 7\<rparr>,
       \<lparr>clip_id = ''e'', clip_title = ''E'', viral_score = Some 0\<rparr>]]"
  have a: "0 < length ?h" by simp
  have d: "distributeClipsAcrossRegions ?h 0
   = ([[\<lparr>clip_id = ''a'', clip_title = ''A'', viral_score = Some 5\<rparr>,
        \<lparr>clip_id = ''b'', clip_title = ''B'', viral_score = None\<rparr>,
        \<lparr>clip_id = ''c'', clip_title = ''C'', viral_score = Some 9\<rparr>,
        \<lparr>clip_id = ''d'', clip_title = ''D'', viral_score = Some 7\<rparr>,
        \<lparr>clip_id = ''e'', clip_title = ''E'', viral_score = Some 0\<rparr>],
       [\<lparr>clip_id = ''c'', clip_title = ''C'', viral_score = Some 9\<rparr>,
        \<lparr>clip_id = ''d'', clip_title = ''D'', viral_score = Some 7\<rparr>,
        \<lparr>clip_id = ''a'', clip_title = ''A'', viral_score = Some 5\<rparr>,
        \<lparr>clip_id = ''b'', clip_title = ''B'', viral_score = None\<rparr>,
        \<lparr>clip_id = ''e'', clip_title = ''E'', viral_score = Some 0\<rparr>]],
      [\<lparr>dc_clip = \<lparr>clip_id = ''c'', clip_title = ''C'', viral_score = Some 9\<rparr>,
        dc_region = ''us-east-1''\<rparr>,
       \<lparr>dc_clip = \<lparr>clip_id = ''d'', clip_title = ''D'', viral_score = Some 7\<rparr>,
        dc_region = ''us-west-2''\<rparr>,
       \<lparr>dc_clip = \<lparr>clip_id = ''a'', clip_title = ''A'', viral_score = Some 5\<rparr>,
        dc_region = ''eu-west-1''\<rparr>,
       \<lparr>dc_clip = \<lparr>clip_id = ''b'', clip_title = ''B'', viral_score = None\<rparr>,
        dc_region = ''ap-southeast-1''\<rparr>,
       \<lparr>dc_clip = \<lparr>clip_id = ''e'', clip_title = ''E'', viral_score = Some 0\<rparr>,
        dc_region = ''ap-southeast-2''\<rparr>])"
    by (simp add: distributeClipsAcrossRegions_def spread_copy_def array_sort_def map_index_def
        score_cmp_def or_zero_def REMOTION_REGIONS_def enumerate_eq_zip upt_rec)
  from distributeClipsAcrossRegions_sorted_round_robin [OF a d]
  have "sorted_wrt (\<lambda>x y. (case viral_score y of None \<Rightarrow> 0 | Some s \<Rightarrow> s)
                        \<le> (case viral_score x of None \<Rightarrow> 0 | Some s \<Rightarrow> s))
        (map dc_clip
           [\<lparr>dc_clip = \<lparr>clip_id = ''c'', clip_title = ''C'', viral_score = Some 9\<rparr>,
        dc_region = ''us-east-1''\<rparr>,
       \<lparr>dc_clip = \<lparr>clip_id = ''d'', clip_title = ''D'', viral_score = Some 7\<rparr>,
        dc_region = ''us-west-2''\<rparr>,
       \<lparr>dc_clip = \<lparr>clip_id = ''a'', clip_title = ''A'', viral_score = Some 5\<rparr>,
        dc_region = ''eu-west-1''\<rparr>,
       \<lparr>dc_clip = \<lparr>clip_id = ''b'', clip_title = ''B'', viral_score = None\<rparr>,
        dc_region = ''ap-southeast-1''\<rparr>,
       \<lparr>dc_clip = \<lparr>clip_id = ''e'', clip_title = ''E'', viral_score = Some 0\<rparr>,
        dc_region = ''ap-southeast-2''\<rparr>])"
    by blast
  with d show ?thesis by blast
qed

section \<open>Batch creation partitions the candidate list\<close>

lemma batch_count_less: "0 < n \<Longrightarrow> j < batch_count n len \<longleftrightarrow> j * n < len"
proof -
  assume n: "0 < n"
  have "j < (len + n - 1) div n \<longleftrightarrow> Suc j \<le> (len + n - 1) div n" by auto
  also have "\<dots> \<longleftrightarrow> Suc j * n \<le> len + n - 1"
    using n by (simp add: less_eq_div_iff_mult_less_eq)
  also have "\<dots> \<longleftrightarrow> j * n < len" using n by auto
  finally show ?thesis by (simp add: batch_count_def)
qed

lemma batch_loop_closed:
  assumes n: "0 < n"
  shows "batch_loop n ims (j * n) groups
         = Some (groups @ map (nth_batch n ims) [j..<batch_count n (length ims)])"
proof (induction "batch_count n (length ims) - j" arbitrary: j groups)
  case 0
  then have "\<not> j < batch_count n (length ims)" by simp
  then have "\<not> j * n < length ims" using n by (simp add: batch_count_less)
  then show ?case using 0 by (subst batch_loop.simps) simp
next
  case (Suc d)
  then have lt: "j < batch_count n (length ims)" by simp
  then have i: "j * n < length ims" using n by (simp add: batch_count_less)
  have d: "d = batch_count n (length ims) - Suc j" using Suc by simp
  have step: "batch_loop n ims (j * n) groups =
      batch_loop n ims (Suc j * n) (groups @ [nth_batch n ims j])"
    using i n by (subst batch_loop.simps) (simp add: js_slice_def nth_batch_def Let_def add.commute)
  show ?case
    unfolding step Suc.hyps(1)[OF d]
    using lt by (simp add: upt_conv_Cons)
qed

lemma concat_chunks:
  "concat (map (\<lambda>k. take n (drop (k * n) xs)) [0..<m]) = take (m * n) xs"
proof (induction m)
  case 0
  then show ?case by simp
next
  case (Suc m)
  have "take (m * n + n) xs = take (m * n) xs @ take n (drop (m * n) xs)"
    by (rule take_add)
  with Suc show ?case by (simp add: add.commute)
qed

lemma batch_count_covers: "0 < n \<Longrightarrow> len \<le> batch_count n len * n"
  using batch_count_less[of n "batch_count n len" len] by auto


lemma create_batches_closed:
  assumes n: "0 < n"
  shows "create_batches n ms
         = Some (map (nth_batch n (map_index (\<lambda>moment index. \<lparr>im_moment = moment, original_index = index\<rparr>) ms))
                   [0..<batch_count n (length ms)])"
proof -
  let ?ims = "map_index (\<lambda>moment index. \<lparr>im_moment = moment, original_index = index\<rparr>) ms"
  have "batch_loop n ?ims (0 * n) [] = Some ([] @ map (nth_batch n ?ims) [0..<batch_count n (length ?ims)])"
    by (rule batch_loop_closed[OF n])
  then show ?thesis
    by (simp add: create_batches_def Let_def map_index_length)
qed

text \<open>
  C4. For a batch size \<open>n > 0\<close> (the code's is \<open>clipsPerBatch = 4\<close>) the batch-creation step
  returns, for every list of moments: contiguous batches whose concatenation in order is the
  tagged input list; every candidate carries as \<^verbatim>\<open>original_index\<close> its position in the full
  list (\<open>k * n + r\<close> for the \<open>r\<close>-th candidate of batch \<open>k\<close>, not \<open>r\<close>); batch \<open>k\<close> starts at
  position \<open>k * n\<close> and has \<^verbatim>\<open>batch_index\<close> \<open>(k * n) div n = k\<close>; every batch but the last has
  exactly \<open>n\<close> candidates and the last has between 1 and \<open>n\<close>.
\<close>

theorem create_batches_partition:
  assumes n: "0 < n"
  shows "\<exists>groups. create_batches n ms = Some groups
     \<and> concat (map viral_moments groups)
         = map_index (\<lambda>moment index. \<lparr>im_moment = moment, original_index = index\<rparr>) ms
     \<and> (\<forall>j < length ms. concat (map viral_moments groups) ! j
            = \<lparr>im_moment = ms ! j, original_index = j\<rparr>)
     \<and> (\<forall>k < length groups.
            batch_index (groups ! k) = (k * n) div n
          \<and> batch_index (groups ! k) = k
          \<and> viral_moments (groups ! k)
              = take n (drop (k * n) (concat (map viral_moments groups)))
          \<and> clip_count (groups ! k) = length (viral_moments (groups ! k))
          \<and> 0 < length (viral_moments (groups ! k))
          \<and> length (viral_moments (groups ! k)) \<le> n
          \<and> (Suc k < length groups \<longrightarrow> length (viral_moments (groups ! k)) = n)
          \<and> (\<forall>r < length (viral_moments (groups ! k)).
                original_index (viral_moments (groups ! k) ! r) = k * n + r))"
proof -
  let ?ims = "map_index (\<lambda>moment index. \<lparr>im_moment = moment, original_index = index\<rparr>) ms"
  let ?m = "batch_count n (length ms)"
  let ?groups = "map (nth_batch n ?ims) [0..<?m]"
  have len: "length ?ims = length ms" by (simp add: map_index_length)
  have c: "create_batches n ms = Some ?groups" by (rule create_batches_closed[OF n])
  have "map viral_moments ?groups = map (\<lambda>k. take n (drop (k * n) ?ims)) [0..<?m]"
    by (simp add: nth_batch_def)
  then have "concat (map viral_moments ?groups) = take (?m * n) ?ims"
    by (simp only: concat_chunks)
  then have cc: "concat (map viral_moments ?groups) = ?ims"
    using batch_count_covers[OF n, of "length ms"] len by simp
  have tag: "\<forall>j < length ms. ?ims ! j = \<lparr>im_moment = ms ! j, original_index = j\<rparr>"
    by (simp add: map_index_nth)
  have per: "batch_index (?groups ! k) = (k * n) div n
          \<and> batch_index (?groups ! k) = k
          \<and> viral_moments (?groups ! k) = take n (drop (k * n) ?ims)
          \<and> clip_count (?groups ! k) = length (viral_moments (?groups ! k))
          \<and> 0 < length (viral_moments (?groups ! k))
          \<and> length (viral_moments (?groups ! k)) \<le> n
          \<and> (Suc k < length ?groups \<longrightarrow> length (viral_moments (?groups ! k)) = n)
          \<and> (\<forall>r < length (viral_moments (?groups ! k)).
                original_index (viral_moments (?groups ! k) ! r) = k * n + r)"
    if k: "k < length ?groups" for k
  proof -
    from k have km: "k < ?m" by simp
    then have g: "?groups ! k = nth_batch n ?ims k" by simp
    from km have kn: "k * n < length ms" using n by (simp add: batch_count_less)
    have full: "length (take n (drop (k * n) ?ims)) = n" if "Suc k < length ?groups"
    proof -
      from that have "Suc k * n < length ms" using n by (simp add: batch_count_less)
      then show ?thesis using len by simp
    qed
    have idx: "original_index (take n (drop (k * n) ?ims) ! r) = k * n + r"
      if "r < length (take n (drop (k * n) ?ims))" for r
    proof -
      from that have "r < n" and "k * n + r < length ms" using len by auto
      then show ?thesis by (simp add: len map_index_nth)
    qed
    show ?thesis
      unfolding g using n kn len full idx by (simp add: nth_batch_def)
  qed
  from c cc tag per show ?thesis
    by (intro exI[of _ ?groups]) (simp only: cc, blast)
qed


text \<open>Five moments with the configured batch size 4: one full batch and a batch of one.\<close>

theorem create_batches_partition_witness:
  "0 < clipsPerBatch
   \<and> create_batches clipsPerBatch [''m0'', ''m1'', ''m2'', ''m3'', ''m4'']
       = Some [\<lparr>batch_index = 0,
                 viral_moments = [\<lparr>im_moment = ''m0'', original_index = 0\<rparr>,
                                  \<lparr>im_moment = ''m1'', original_index = 1\<rparr>,
                                  \<lparr>im_moment = ''m2'', original_index = 2\<rparr>,
                                  \<lparr>im_moment = ''m3'', original_index = 3\<rparr>],
                 clip_count = 4\<rparr>,
               \<lparr>batch_index = 1,
                 viral_moments = [\<lparr>im_moment = ''m4'', original_index = 4\<rparr>],
                 clip_count = 1\<rparr>]
   \<and> (\<exists>groups. create_batches clipsPerBatch [''m0'', ''m1'', ''m2'', ''m3'', ''m4''] = Some groups
         \<and> length (concat (map viral_moments groups)) = 5)"
proof -
  have pos: "0 < clipsPerBatch" by (simp add: clipsPerBatch_def)
  have e: "create_batches clipsPerBatch [''m0'', ''m1'', ''m2'', ''m3'', ''m4'']
       = Some [\<lparr>batch_index = 0,
                 viral_moments = [\<lparr>im_moment = ''m0'', original_index = 0\<rparr>,
                                  \<lparr>im_moment = ''m1'', original_index = 1\<rparr>,
                                  \<lparr>im_moment = ''m2'', original_index = 2\<rparr>,
                                  \<lparr>im_moment = ''m3'', original_index = 3\<rparr>],
                 clip_count = 4\<rparr>,
               \<lparr>batch_index = 1,
                 viral_moments = [\<lparr>im_moment = ''m4'', original_index = 4\<rparr>],
                 clip_count = 1\<rparr>]"
    by (simp add: create_batches_def clipsPerBatch_def map_index_def enumerate_eq_zip upt_rec
        batch_loop.simps js_slice_def Let_def)
  from create_batches_partition [OF pos, of "[''m0'', ''m1'', ''m2'', ''m3'', ''m4'']"]
  obtain groups where
    "create_batches clipsPerBatch [''m0'', ''m1'', ''m2'', ''m3'', ''m4''] = Some groups"
    "concat (map viral_moments groups)
       = map_index (\<lambda>moment index. \<lparr>im_moment = moment, original_index = index\<rparr>)
           [''m0'', ''m1'', ''m2'', ''m3'', ''m4'']"
    by blast
  then have "\<exists>groups. create_batches clipsPerBatch [''m0'', ''m1'', ''m2'', ''m3'', ''m4''] = Some groups
         \<and> length (concat (map viral_moments groups)) = 5"
    by (simp add: map_index_length)
  with pos e show ?thesis by blast
qed

section \<open>The polling loops stop within 120 attempts\<close>

lemma poll_attempt_ready:
  "has_download_url response \<Longrightarrow>
   poll_attempt response r c =
     (Return \<lparr>dr_downloadUrl = url_of response, dr_videoId = ra_videoId r,
              dr_title = ra_title r, dr_length = ra_length r\<rparr>, c)"
  by (auto simp: has_download_url_def poll_attempt_def url_of_def
      split: poll_outcome.splits option.splits)

lemma poll_attempt_not_ready:
  "\<not> has_download_url response \<Longrightarrow>
   poll_attempt response r (count_fetch c) = (Continue, tick c)"
  by (auto simp: has_download_url_def poll_attempt_def tick_def
      split: poll_outcome.splits option.splits)

lemma status_attempt_ready:
  "has_download_url response \<Longrightarrow>
   \<exists>v t. status_attempt response y c =
     (Return \<lparr>od_download_url = url_of response, od_video_id = v, od_title = t\<rparr>, c)"
  by (auto simp: has_download_url_def status_attempt_def url_of_def
      split: poll_outcome.splits option.splits)

lemma status_attempt_not_ready:
  "\<not> has_download_url response \<Longrightarrow>
   status_attempt response y (count_fetch c) = (Continue, tick c)"
  by (auto simp: has_download_url_def status_attempt_def tick_def
      split: poll_outcome.splits option.splits)

lemma tick_funpow:
  "(tick ^^ n) c = \<lparr>fetch_calls = fetch_calls c + n, slept_ms = slept_ms c + pollInterval * n\<rparr>"
  by (induction n arbitrary: c) (simp_all add: tick_def sleep_def count_fetch_def funpow_swap1)

lemma for_attempts_exhausted:
  assumes "\<forall>k c. attempt \<le> k \<and> k \<le> m \<longrightarrow> body k c = (Continue, tick c)"
    and "attempt \<le> Suc m"
  shows "for_attempts m body attempt c = (None, (tick ^^ (Suc m - attempt)) c)"
  using assms
proof (induction "Suc m - attempt" arbitrary: attempt c)
  case 0
  then have "\<not> attempt \<le> m" by simp
  then show ?case using 0 by (subst for_attempts.simps) simp
next
  case (Suc d)
  then have le: "attempt \<le> m" by simp
  have d: "d = Suc m - (attempt + 1)" using Suc.hyps(2) by simp
  have rest: "\<forall>k c. attempt + 1 \<le> k \<and> k \<le> m \<longrightarrow> body k c = (Continue, tick c)"
    using Suc.prems by simp
  have b: "attempt + 1 \<le> Suc m" using le by simp
  have "for_attempts m body attempt c = for_attempts m body (attempt + 1) (tick c)"
    using le Suc.prems(1) by (subst for_attempts.simps) simp
  also note Suc.hyps(1)[OF d rest b]
  finally show ?case using le
    by (simp add: Suc_diff_le funpow_swap1)
qed

lemma for_attempts_returns:
  assumes "body k ((tick ^^ (k - attempt)) c) = (Return x, c')"
    and "\<forall>j c. attempt \<le> j \<and> j < k \<longrightarrow> body j c = (Continue, tick c)"
    and "attempt \<le> k" and "k \<le> m"
  shows "for_attempts m body attempt c = (Some x, c')"
  using assms
proof (induction "k - attempt" arbitrary: attempt c)
  case 0
  then have eq: "attempt = k" by simp
  show ?case using 0 unfolding eq
    by (subst for_attempts.simps) simp
next
  case (Suc d)
  then have lt: "attempt < k" by simp
  then have le: "attempt \<le> m" using Suc.prems by simp
  have d: "d = k - (attempt + 1)" using Suc.hyps(2) by simp
  have rest: "\<forall>j c. attempt + 1 \<le> j \<and> j < k \<longrightarrow> body j c = (Continue, tick c)"
    using Suc.prems by simp
  have b: "attempt + 1 \<le> k" using lt by simp
  have "(tick ^^ (k - attempt)) c = (tick ^^ Suc d) c"
    using Suc.hyps(2) by simp
  also have "\<dots> = (tick ^^ d) (tick c)"
    by (simp add: funpow_swap1)
  finally have ret: "body k ((tick ^^ (k - (attempt + 1))) (tick c)) = (Return x, c')"
    using Suc.prems(1) d by simp
  have "for_attempts m body attempt c = for_attempts m body (attempt + 1) (tick c)"
    using le lt Suc.prems(2) by (subst for_attempts.simps) simp
  also note Suc.hyps(1)[OF d ret rest b Suc.prems(4)]
  finally show ?case .
qed


lemma polling_found:
  assumes k: "1 \<le> k" "k \<le> maxPollAttempts" "has_download_url (fetch k)"
    and first: "\<forall>j. 1 \<le> j \<and> j < k \<longrightarrow> \<not> has_download_url (fetch j)"
  shows "rapidapi_10min_polling fetch r =
           (Inr \<lparr>dr_downloadUrl = url_of (fetch k), dr_videoId = ra_videoId r,
                 dr_title = ra_title r, dr_length = ra_length r\<rparr>,
            \<lparr>fetch_calls = k, slept_ms = pollInterval * (k - 1)\<rparr>)"
    and "\<exists>v t. poll_for_download_url fetch y =
           (Inr \<lparr>od_download_url = url_of (fetch k), od_video_id = v, od_title = t\<rparr>,
            \<lparr>fetch_calls = k, slept_ms = pollInterval * (k - 1)\<rparr>)"
proof -
  let ?c0 = "\<lparr>fetch_calls = 0, slept_ms = 0\<rparr>"
  let ?ck = "(tick ^^ (k - 1)) ?c0"
  have ck: "count_fetch ?ck = \<lparr>fetch_calls = k, slept_ms = pollInterval * (k - 1)\<rparr>"
    using k(1) by (simp add: tick_funpow count_fetch_def)
  let ?b1 = "\<lambda>attempt c. poll_attempt (fetch attempt) r (count_fetch c)"
  have "?b1 k ?ck = (Return \<lparr>dr_downloadUrl = url_of (fetch k), dr_videoId = ra_videoId r,
              dr_title = ra_title r, dr_length = ra_length r\<rparr>, count_fetch ?ck)"
    by (rule poll_attempt_ready[OF k(3)])
  moreover have "\<forall>j c. 1 \<le> j \<and> j < k \<longrightarrow> ?b1 j c = (Continue, tick c)"
    using first by (simp add: poll_attempt_not_ready)
  ultimately have "for_attempts maxPollAttempts ?b1 1 ?c0 =
      (Some \<lparr>dr_downloadUrl = url_of (fetch k), dr_videoId = ra_videoId r,
              dr_title = ra_title r, dr_length = ra_length r\<rparr>, count_fetch ?ck)"
    using k(1,2) by (intro for_attempts_returns[where k = k]) auto
  then show "rapidapi_10min_polling fetch r =
           (Inr \<lparr>dr_downloadUrl = url_of (fetch k), dr_videoId = ra_videoId r,
                 dr_title = ra_title r, dr_length = ra_length r\<rparr>,
            \<lparr>fetch_calls = k, slept_ms = pollInterval * (k - 1)\<rparr>)"
    using ck by (simp add: rapidapi_10min_polling_def)
  let ?b2 = "\<lambda>attempt c. status_attempt (fetch attempt) y (count_fetch c)"
  from status_attempt_ready[OF k(3), of y "count_fetch ?ck"]
  obtain v t where ret: "?b2 k ?ck =
      (Return \<lparr>od_download_url = url_of (fetch k), od_video_id = v, od_title = t\<rparr>,
       count_fetch ?ck)"
    by blast
  have "\<forall>j c. 1 \<le> j \<and> j < k \<longrightarrow> ?b2 j c = (Continue, tick c)"
    using first by (simp add: status_attempt_not_ready)
  with ret have "for_attempts maxPollAttempts ?b2 1 ?c0 =
      (Some \<lparr>od_download_url = url_of (fetch k), od_video_id = v, od_title = t\<rparr>,
       count_fetch ?ck)"
    using k(1,2) by (intro for_attempts_returns[where k = k]) auto
  then have "poll_for_download_url fetch y =
           (Inr \<lparr>od_download_url = url_of (fetch k), od_video_id = v, od_title = t\<rparr>,
            \<lparr>fetch_calls = k, slept_ms = pollInterval * (k - 1)\<rparr>)"
    using ck by (simp add: poll_for_download_url_def)
  then show "\<exists>v t. poll_for_download_url fetch y =
           (Inr \<lparr>od_download_url = url_of (fetch k), od_video_id = v, od_title = t\<rparr>,
            \<lparr>fetch_calls = k, slept_ms = pollInterval * (k - 1)\<rparr>)"
    by blast
qed

lemma polling_exhausted:
  assumes none: "\<forall>k. 1 \<le> k \<and> k \<le> maxPollAttempts \<longrightarrow> \<not> has_download_url (fetch k)"
  shows "rapidapi_10min_polling fetch r =
           (Inl (Error (''Polling timed out after '' @ show_nat maxPollAttempts
                        @ '' attempts (10 minutes). Progress URL: ''
                        @ undefined_or (ra_progressUrl r))),
            \<lparr>fetch_calls = maxPollAttempts, slept_ms = pollInterval * maxPollAttempts\<rparr>)"
    and "poll_for_download_url fetch y =
           (Inl (Error (''Download URL not available after '' @ show_nat maxPollAttempts
                        @ '' polling attempts (10 minutes)'')),
            \<lparr>fetch_calls = maxPollAttempts, slept_ms = pollInterval * maxPollAttempts\<rparr>)"
proof -
  let ?c0 = "\<lparr>fetch_calls = 0, slept_ms = 0\<rparr>"
  let ?b1 = "\<lambda>attempt c. poll_attempt (fetch attempt) r (count_fetch c)"
  let ?b2 = "\<lambda>attempt c. status_attempt (fetch attempt) y (count_fetch c)"
  have "\<forall>k c. 1 \<le> k \<and> k \<le> maxPollAttempts \<longrightarrow> ?b1 k c = (Continue, tick c)"
    using none by (simp add: poll_attempt_not_ready)
  then have "for_attempts maxPollAttempts ?b1 1 ?c0 = (None, (tick ^^ (Suc maxPollAttempts - 1)) ?c0)"
    by (intro for_attempts_exhausted) auto
  then show "rapidapi_10min_polling fetch r =
           (Inl (Error (''Polling timed out after '' @ show_nat maxPollAttempts
                        @ '' attempts (10 minutes). Progress URL: ''
                        @ undefined_or (ra_progressUrl r))),
            \<lparr>fetch_calls = maxPollAttempts, slept_ms = pollInterval * maxPollAttempts\<rparr>)"
    by (simp add: rapidapi_10min_polling_def tick_funpow)
  have "\<forall>k c. 1 \<le> k \<and> k \<le> maxPollAttempts \<longrightarrow> ?b2 k c = (Continue, tick c)"
    using none by (simp add: status_attempt_not_ready)
  then have "for_attempts maxPollAttempts ?b2 1 ?c0 = (None, (tick ^^ (Suc maxPollAttempts - 1)) ?c0)"
    by (intro for_attempts_exhausted) auto
  then show "poll_for_download_url fetch y =
           (Inl (Error (''Download URL not available after '' @ show_nat maxPollAttempts
                        @ '' polling attempts (10 minutes)'')),
            \<lparr>fetch_calls = maxPollAttempts, slept_ms = pollInterval * maxPollAttempts\<rparr>)"
    by (simp add: poll_for_download_url_def tick_funpow)
qed

lemma polling_bounds:
  "fetch_calls (snd (rapidapi_10min_polling fetch r)) \<le> maxPollAttempts
   \<and> slept_ms (snd (rapidapi_10min_polling fetch r)) \<le> pollInterval * maxPollAttempts
   \<and> fetch_calls (snd (poll_for_download_url fetch y)) \<le> maxPollAttempts
   \<and> slept_ms (snd (poll_for_download_url fetch y)) \<le> pollInterval * maxPollAttempts"
proof (cases "\<exists>k. 1 \<le> k \<and> k \<le> maxPollAttempts \<and> has_download_url (fetch k)")
  case True
  define P where "P k \<longleftrightarrow> 1 \<le> k \<and> k \<le> maxPollAttempts \<and> has_download_url (fetch k)" for k
  from True have "\<exists>k. P k" by (simp add: P_def)
  then obtain k where Pk: "P k" and least: "\<forall>j. j < k \<longrightarrow> \<not> P j"
    using exists_least_iff[of P] by blast
  from Pk have k: "1 \<le> k" "k \<le> maxPollAttempts" "has_download_url (fetch k)"
    by (simp_all add: P_def)
  from least k have first: "\<forall>j. 1 \<le> j \<and> j < k \<longrightarrow> \<not> has_download_url (fetch j)"
    by (auto simp: P_def)
  from polling_found(1)[OF k first, of r] polling_found(2)[OF k first, of y] k
  show ?thesis by auto
next
  case False
  then have "\<forall>k. 1 \<le> k \<and> k \<le> maxPollAttempts \<longrightarrow> \<not> has_download_url (fetch k)" by blast
  from polling_exhausted(1)[OF this, of r] polling_exhausted(2)[OF this, of y]
  show ?thesis by simp
qed

text \<open>
  C9. Both polling loops use \<open>maxPollAttempts = 120\<close> and \<open>pollInterval = 5000\<close> ms. If attempt
  \<open>k \<le> 120\<close> is the first whose response carries a download URL, the step returns that URL after
  exactly \<open>k\<close> fetches and \<open>k - 1\<close> sleeps of 5 s; if no attempt up to 120 carries one, the step
  raises its timeout error after exactly 120 fetches and 120 sleeps (600000 ms). In every case
  the loop stops after at most 120 fetches and 600000 ms of sleeping.
\<close>

theorem download_url_polling_bounded:
  "maxPollAttempts = 120 \<and> pollInterval = 5000
   \<and> (\<forall>k. 1 \<le> k \<and> k \<le> maxPollAttempts \<and> has_download_url (fetch k)
          \<and> (\<forall>j. 1 \<le> j \<and> j < k \<longrightarrow> \<not> has_download_url (fetch j))
        \<longrightarrow> rapidapi_10min_polling fetch r =
              (Inr \<lparr>dr_downloadUrl = url_of (fetch k), dr_videoId = ra_videoId r,
                    dr_title = ra_title r, dr_length = ra_length r\<rparr>,
               \<lparr>fetch_calls = k, slept_ms = pollInterval * (k - 1)\<rparr>)
          \<and> (\<exists>v t. poll_for_download_url fetch y =
              (Inr \<lparr>od_download_url = url_of (fetch k), od_video_id = v, od_title = t\<rparr>,
               \<lparr>fetch_calls = k, slept_ms = pollInterval * (k - 1)\<rparr>)))
   \<and> ((\<forall>k. 1 \<le> k \<and> k \<le> maxPollAttempts \<longrightarrow> \<not> has_download_url (fetch k))
        \<longrightarrow> rapidapi_10min_polling fetch r =
              (Inl (Error (''Polling timed out after '' @ show_nat maxPollAttempts
                           @ '' attempts (10 minutes). Progress URL: ''
                           @ undefined_or (ra_progressUrl r))),
               \<lparr>fetch_calls = 120, slept_ms = 600000\<rparr>)
          \<and> poll_for_download_url fetch y =
              (Inl (Error (''Download URL not available after '' @ show_nat maxPollAttempts
                           @ '' polling attempts (10 minutes)'')),
               \<lparr>fetch_calls = 120, slept_ms = 600000\<rparr>))
   \<and> fetch_calls (snd (rapidapi_10min_polling fetch r)) \<le> 120
   \<and> slept_ms (snd (rapidapi_10min_polling fetch r)) \<le> 600000
   \<and> fetch_calls (snd (poll_for_download_url fetch y)) \<le> 120
   \<and> slept_ms (snd (poll_for_download_url fetch y)) \<le> 600000"
proof -
  have c: "maxPollAttempts = 120" "pollInterval = 5000"
    by (simp_all add: maxPollAttempts_def pollInterval_def)
  have m: "pollInterval * maxPollAttempts = 600000" by (simp add: c)
  have found: "rapidapi_10min_polling fetch r =
              (Inr \<lparr>dr_downloadUrl = url_of (fetch k), dr_videoId = ra_videoId r,
                    dr_title = ra_title r, dr_length = ra_length r\<rparr>,
               \<lparr>fetch_calls = k, slept_ms = pollInterval * (k - 1)\<rparr>)
          \<and> (\<exists>v t. poll_for_download_url fetch y =
              (Inr \<lparr>od_download_url = url_of (fetch k), od_video_id = v, od_title = t\<rparr>,
               \<lparr>fetch_calls = k, slept_ms = pollInterval * (k - 1)\<rparr>))"
    if "1 \<le> k \<and> k \<le> maxPollAttempts \<and> has_download_url (fetch k)
          \<and> (\<forall>j. 1 \<le> j \<and> j < k \<longrightarrow> \<not> has_download_url (fetch j))" for k
    using that polling_found(1)[of k fetch r] polling_found(2)[of k fetch y] by blast
  have ex: "rapidapi_10min_polling fetch r =
              (Inl (Error (''Polling timed out after '' @ show_nat maxPollAttempts
                           @ '' attempts (10 minutes). Progress URL: ''
                           @ undefined_or (ra_progressUrl r))),
               \<lparr>fetch_calls = 120, slept_ms = 600000\<rparr>)
          \<and> poll_for_download_url fetch y =
              (Inl (Error (''Download URL not available after '' @ show_nat maxPollAttempts
                           @ '' polling attempts (10 minutes)'')),
               \<lparr>fetch_calls = 120, slept_ms = 600000\<rparr>)"
    if "\<forall>k. 1 \<le> k \<and> k \<le> maxPollAttempts \<longrightarrow> \<not> has_download_url (fetch k)"
    using polling_exhausted(1)[OF that, of r] polling_exhausted(2)[OF that, of y]
    unfolding m unfolding c by simp
  have b: "fetch_calls (snd (rapidapi_10min_polling fetch r)) \<le> 120
   \<and> slept_ms (snd (rapidapi_10min_polling fetch r)) \<le> 600000
   \<and> fetch_calls (snd (poll_for_download_url fetch y)) \<le> 120
   \<and> slept_ms (snd (poll_for_download_url fetch y)) \<le> 600000"
    using polling_bounds[of fetch r y] unfolding m unfolding c by simp
  from c found ex b show ?thesis by blast
qed


text \<open>The URL appears at the third poll; and a service that never answers.\<close>

theorem download_url_polling_bounded_witness:
  "rapidapi_10min_polling
     (\<lambda>k. if k = 3
          then HttpResponse 200 (Some \<lparr>pr_download_url = Some ''https://cdn/v.mp4'',
                  pr_progress = Some 1000, pr_video_id = None, pr_title = None\<rparr>)
          else HttpResponse 200 (Some \<lparr>pr_download_url = None,
                  pr_progress = Some 500, pr_video_id = None, pr_title = None\<rparr>))
     \<lparr>ra_progressUrl = Some ''https://p'', ra_videoId = ''vid'', ra_title = ''T'',
      ra_length = ''Unknown''\<rparr>
   = (Inr \<lparr>dr_downloadUrl = ''https://cdn/v.mp4'', dr_videoId = ''vid'', dr_title = ''T'',
           dr_length = ''Unknown''\<rparr>,
      \<lparr>fetch_calls = 3, slept_ms = 10000\<rparr>)
   \<and> rapidapi_10min_polling (\<lambda>k. FetchThrows)
       \<lparr>ra_progressUrl = Some ''https://p'', ra_videoId = ''vid'', ra_title = ''T'',
        ra_length = ''Unknown''\<rparr>
     = (Inl (Error ''Polling timed out after 120 attempts (10 minutes). Progress URL: https://p''),
        \<lparr>fetch_calls = 120, slept_ms = 600000\<rparr>)"
proof -
  let ?f = "\<lambda>k::nat. if k = 3
          then HttpResponse 200 (Some \<lparr>pr_download_url = Some ''https://cdn/v.mp4'',
                  pr_progress = Some 1000, pr_video_id = None, pr_title = None\<rparr>)
          else HttpResponse 200 (Some \<lparr>pr_download_url = None,
                  pr_progress = Some 500, pr_video_id = None, pr_title = None\<rparr>)"
  let ?r = "\<lparr>ra_progressUrl = Some ''https://p'', ra_videoId = ''vid'', ra_title = ''T'',
      ra_length = ''Unknown''\<rparr>"
  have h: "(1::nat) \<le> 3 \<and> 3 \<le> maxPollAttempts \<and> has_download_url (?f 3)
          \<and> (\<forall>j. 1 \<le> j \<and> j < 3 \<longrightarrow> \<not> has_download_url (?f j))"
    by (simp add: maxPollAttempts_def has_download_url_def response_ok_def truthy_def)
  have n: "\<forall>k. 1 \<le> k \<and> k \<le> maxPollAttempts \<longrightarrow> \<not> has_download_url FetchThrows"
    by (simp add: has_download_url_def)
  have s: "show_nat maxPollAttempts = ''120''"
    unfolding maxPollAttempts_def by code_simp
  from download_url_polling_bounded [of ?f ?r "''y''"] h
  have 1: "rapidapi_10min_polling ?f ?r
      = (Inr \<lparr>dr_downloadUrl = url_of (?f 3), dr_videoId = ra_videoId ?r,
              dr_title = ra_title ?r, dr_length = ra_length ?r\<rparr>,
         \<lparr>fetch_calls = 3, slept_ms = pollInterval * (3 - 1)\<rparr>)"
    by blast
  from download_url_polling_bounded [of "\<lambda>k. FetchThrows" ?r "''y''"] n
  have 2: "rapidapi_10min_polling (\<lambda>k. FetchThrows) ?r =
              (Inl (Error (''Polling timed out after '' @ show_nat maxPollAttempts
                           @ '' attempts (10 minutes). Progress URL: ''
                           @ undefined_or (ra_progressUrl ?r))),
               \<lparr>fetch_calls = 120, slept_ms = 600000\<rparr>)"
    by blast
  from 1 2 show ?thesis
    unfolding s by (simp add: url_of_def pollInterval_def undefined_or_def)
qed

section \<open>The completion check and its triggers\<close>

lemma pending_clip_ids_image:
  "pending_clip_ids P st = gc_id ` {c \<in> set (pipeline_clips P st). \<not> terminal c}"
  by (auto simp: pending_clip_ids_def)

lemma finished_le:
  "length (filter (\<lambda>c. gc_status c = ''COMPLETED'') cs)
   + length (filter (\<lambda>c. gc_status c = ''FAILED'') cs) \<le> length cs"
  by (induction cs) auto

lemma finished_eq_iff:
  "length (filter (\<lambda>c. gc_status c = ''COMPLETED'') cs)
   + length (filter (\<lambda>c. gc_status c = ''FAILED'') cs) = length cs
   \<longleftrightarrow> (\<forall>c \<in> set cs. terminal c)"
proof (induction cs)
  case Nil
  then show ?case by simp
next
  case (Cons c cs)
  from finished_le[of cs] Cons show ?case
    by (auto simp: terminal_def)
qed

lemma check_complete_iff:
  assumes "db_error st = None"
  shows "\<exists>stats. hcc_check_pipeline_completion P st = Some stats
     \<and> cs_totalClips stats = length (pipeline_clips P st)
     \<and> cs_completedClips stats
         = length (filter (\<lambda>c. gc_status c = ''COMPLETED'') (pipeline_clips P st))
     \<and> cs_failedClips stats
         = length (filter (\<lambda>c. gc_status c = ''FAILED'') (pipeline_clips P st))
     \<and> (cs_complete stats \<longleftrightarrow>
          cs_completedClips stats + cs_failedClips stats = cs_totalClips stats
          \<and> cs_totalClips stats > 0)"
  using assms
  by (simp add: hcc_check_pipeline_completion_def select_clips_of_pipeline_def
      pipeline_clips_def Let_def)

lemma check_complete_pending:
  assumes "db_error st = None"
  shows "\<exists>stats. hcc_check_pipeline_completion P st = Some stats
     \<and> (cs_complete stats \<longleftrightarrow> pending_clip_ids P st = {} \<and> pipeline_clips P st \<noteq> [])"
proof -
  from check_complete_iff[OF assms, of P] obtain stats where
    s: "hcc_check_pipeline_completion P st = Some stats"
    and t: "cs_totalClips stats = length (pipeline_clips P st)"
    and c: "cs_completedClips stats
         = length (filter (\<lambda>c. gc_status c = ''COMPLETED'') (pipeline_clips P st))"
    and f: "cs_failedClips stats
         = length (filter (\<lambda>c. gc_status c = ''FAILED'') (pipeline_clips P st))"
    and i: "cs_complete stats \<longleftrightarrow>
          cs_completedClips stats + cs_failedClips stats = cs_totalClips stats
          \<and> cs_totalClips stats > 0"
    by blast
  have "cs_completedClips stats + cs_failedClips stats = cs_totalClips stats
        \<longleftrightarrow> pending_clip_ids P st = {}"
    unfolding t c f finished_eq_iff by (auto simp: pending_clip_ids_image)
  with s i t show ?thesis by auto
qed


lemma hcc_updates:
  assumes "db_error st = None"
  shows "\<exists>st2 upd.
      then_step (hcc_update_render_job ev st) (\<lambda>_ st1. then_step (hcc_update_clip_status ev st1) f)
        = f () st2
    \<and> generated_clips st2 = update_where (\<lambda>c. gc_id c = cc_clipId ev) upd (generated_clips st)
    \<and> (\<forall>c. terminal (upd c) \<and> gc_id (upd c) = gc_id c \<and> gc_pipeline_id (upd c) = gc_pipeline_id c)
    \<and> effects st2 = effects st \<and> db_error st2 = None \<and> pipelines st2 = pipelines st
    \<and> user_profiles st2 = user_profiles st"
proof -
  let ?upd = "\<lambda>c. let c1 = c\<lparr>gc_status :=
                                   (if cc_type ev = ''success'' then ''COMPLETED'' else ''FAILED'')\<rparr>
                      in if cc_type ev = ''success'' \<and> truthy (cc_r2Url ev)
                         then c1\<lparr>gc_r2_final_url := cc_r2Url ev\<rparr>
                         else c1"
  obtain st1 where 1: "hcc_update_render_job ev st = (Inr (), st1)"
    and st1: "generated_clips st1 = generated_clips st" "effects st1 = effects st"
      "db_error st1 = None" "pipelines st1 = pipelines st" "user_profiles st1 = user_profiles st"
    using assms by (simp add: hcc_update_render_job_def update_render_jobs_def Let_def)
  obtain st2 where 2: "hcc_update_clip_status ev st1 = (Inr (), st2)"
    and st2: "generated_clips st2
                = update_where (\<lambda>c. gc_id c = cc_clipId ev) ?upd (generated_clips st1)"
      "effects st2 = effects st1" "db_error st2 = None" "pipelines st2 = pipelines st1"
      "user_profiles st2 = user_profiles st1"
    using st1(3) by (simp add: hcc_update_clip_status_def update_generated_clips_def Let_def)
  have u: "\<forall>c. terminal (?upd c) \<and> gc_id (?upd c) = gc_id c
            \<and> gc_pipeline_id (?upd c) = gc_pipeline_id c"
    by (simp add: terminal_def Let_def)
  have "then_step (hcc_update_render_job ev st)
          (\<lambda>_ st1. then_step (hcc_update_clip_status ev st1) f) = f () st2"
    by (simp add: then_step_def 1 2)
  with st1 st2 u show ?thesis by (intro exI[of _ st2] exI[of _ ?upd]) simp
qed

lemma pipeline_clips_update:
  assumes "\<forall>c. gc_pipeline_id (upd c) = gc_pipeline_id c"
    and "generated_clips st2 = update_where q upd (generated_clips st)"
  shows "pipeline_clips P st2 = update_where q upd (pipeline_clips P st)"
proof -
  have "filter (\<lambda>c. gc_pipeline_id c = P) (map (\<lambda>r. if q r then upd r else r) cs)
        = map (\<lambda>r. if q r then upd r else r) (filter (\<lambda>c. gc_pipeline_id c = P) cs)" for cs
    using assms(1) by (induction cs) auto
  then show ?thesis by (simp add: pipeline_clips_def update_where_def assms(2))
qed

lemma pending_update:
  assumes u: "\<forall>c. terminal (upd c) \<and> gc_id (upd c) = gc_id c
                \<and> gc_pipeline_id (upd c) = gc_pipeline_id c"
    and g: "generated_clips st2 = update_where (\<lambda>c. gc_id c = k) upd (generated_clips st)"
  shows "pending_clip_ids P st2 = pending_clip_ids P st - {k}"
    and "pipeline_clips P st2 = [] \<longleftrightarrow> pipeline_clips P st = []"
proof -
  from u have "\<forall>c. gc_pipeline_id (upd c) = gc_pipeline_id c" by simp
  from pipeline_clips_update[OF this g]
  have pc: "pipeline_clips P st2 = update_where (\<lambda>c. gc_id c = k) upd (pipeline_clips P st)" .
  show "pipeline_clips P st2 = [] \<longleftrightarrow> pipeline_clips P st = []"
    by (simp add: pc update_where_def)
  show "pending_clip_ids P st2 = pending_clip_ids P st - {k}"
    unfolding pending_clip_ids_image pc update_where_def using u
    by (auto simp: image_iff)
qed


lemma handleClipCompletion_step:
  assumes "db_error st = None"
  shows "\<exists>st2 stats.
      handleClipCompletion ev st
        = (Inr (Some stats),
           if cs_complete stats
           then send_effect (Send_pipeline_complete
                  \<lparr>pc_pipelineId = cc_pipelineId ev, pc_userId = cc_userId ev,
                   pc_totalClips = cs_totalClips stats,
                   pc_completedClips = cs_completedClips stats,
                   pc_failedClips = cs_failedClips stats\<rparr>) st2
           else st2)
    \<and> hcc_check_pipeline_completion (cc_pipelineId ev) st2 = Some stats
    \<and> (cs_complete stats \<longleftrightarrow>
          pending_clip_ids (cc_pipelineId ev) st \<subseteq> {cc_clipId ev}
          \<and> pipeline_clips (cc_pipelineId ev) st \<noteq> [])
    \<and> (\<forall>P. pending_clip_ids P st2 = pending_clip_ids P st - {cc_clipId ev}
           \<and> (pipeline_clips P st2 = [] \<longleftrightarrow> pipeline_clips P st = []))
    \<and> effects st2 = effects st \<and> db_error st2 = None"
proof -
  let ?f = "\<lambda>(_::unit) st2.
       (let pipelineComplete = hcc_check_pipeline_completion (cc_pipelineId ev) st2
        in case pipelineComplete of
             None \<Rightarrow> (Inr pipelineComplete, st2)
           | Some stats \<Rightarrow>
               if cs_complete stats
               then (Inr pipelineComplete,
                     send_effect (Send_pipeline_complete
                        \<lparr>pc_pipelineId = cc_pipelineId ev, pc_userId = cc_userId ev,
                         pc_totalClips = cs_totalClips stats,
                         pc_completedClips = cs_completedClips stats,
                         pc_failedClips = cs_failedClips stats\<rparr>) st2)
               else (Inr pipelineComplete, st2))"
  from hcc_updates[OF assms, of ev ?f] obtain st2 upd where
    run: "handleClipCompletion ev st = ?f () st2"
    and g: "generated_clips st2
             = update_where (\<lambda>c. gc_id c = cc_clipId ev) upd (generated_clips st)"
    and u: "\<forall>c. terminal (upd c) \<and> gc_id (upd c) = gc_id c
              \<and> gc_pipeline_id (upd c) = gc_pipeline_id c"
    and e: "effects st2 = effects st" and d: "db_error st2 = None"
    unfolding handleClipCompletion_def by blast
  from check_complete_pending[OF d, of "cc_pipelineId ev"] obtain stats where
    s: "hcc_check_pipeline_completion (cc_pipelineId ev) st2 = Some stats"
    and c: "cs_complete stats \<longleftrightarrow> pending_clip_ids (cc_pipelineId ev) st2 = {}
              \<and> pipeline_clips (cc_pipelineId ev) st2 \<noteq> []"
    by blast
  have p: "\<forall>P. pending_clip_ids P st2 = pending_clip_ids P st - {cc_clipId ev}
           \<and> (pipeline_clips P st2 = [] \<longleftrightarrow> pipeline_clips P st = [])"
    using pending_update[OF u g] by blast
  have c': "cs_complete stats \<longleftrightarrow>
          pending_clip_ids (cc_pipelineId ev) st \<subseteq> {cc_clipId ev}
          \<and> pipeline_clips (cc_pipelineId ev) st \<noteq> []"
    unfolding c using p by auto
  have "handleClipCompletion ev st
        = (Inr (Some stats),
           if cs_complete stats
           then send_effect (Send_pipeline_complete
                  \<lparr>pc_pipelineId = cc_pipelineId ev, pc_userId = cc_userId ev,
                   pc_totalClips = cs_totalClips stats,
                   pc_completedClips = cs_completedClips stats,
                   pc_failedClips = cs_failedClips stats\<rparr>) st2
           else st2)"
    unfolding run by (simp add: s Let_def)
  with s c' p e d show ?thesis by blast
qed

lemma completions_step:
  assumes d: "db_error st = None" and P: "cc_pipelineId ev = P"
  shows "completions P (snd (handleClipCompletion ev st))
         = completions P st
           + (if pending_clip_ids P st \<subseteq> {cc_clipId ev} \<and> pipeline_clips P st \<noteq> [] then 1 else 0)"
    and "pending_clip_ids P (snd (handleClipCompletion ev st))
         = pending_clip_ids P st - {cc_clipId ev}"
    and "pipeline_clips P (snd (handleClipCompletion ev st)) = [] \<longleftrightarrow> pipeline_clips P st = []"
    and "db_error (snd (handleClipCompletion ev st)) = None"
proof -
  from handleClipCompletion_step[OF d, of ev] obtain st2 stats where
    run: "handleClipCompletion ev st
        = (Inr (Some stats),
           if cs_complete stats
           then send_effect (Send_pipeline_complete
                  \<lparr>pc_pipelineId = cc_pipelineId ev, pc_userId = cc_userId ev,
                   pc_totalClips = cs_totalClips stats,
                   pc_completedClips = cs_completedClips stats,
                   pc_failedClips = cs_failedClips stats\<rparr>) st2
           else st2)"
    and c: "cs_complete stats \<longleftrightarrow>
          pending_clip_ids (cc_pipelineId ev) st \<subseteq> {cc_clipId ev}
          \<and> pipeline_clips (cc_pipelineId ev) st \<noteq> []"
    and p: "\<forall>P. pending_clip_ids P st2 = pending_clip_ids P st - {cc_clipId ev}
           \<and> (pipeline_clips P st2 = [] \<longleftrightarrow> pipeline_clips P st = [])"
    and e: "effects st2 = effects st" and d2: "db_error st2 = None"
    by blast
  have inv: "pending_clip_ids P (send_effect x st2) = pending_clip_ids P st2"
    "pipeline_clips P (send_effect x st2) = pipeline_clips P st2"
    "db_error (send_effect x st2) = db_error st2" for x
    by (simp_all add: send_effect_def pending_clip_ids_def pipeline_clips_def)
  show "completions P (snd (handleClipCompletion ev st))
         = completions P st
           + (if pending_clip_ids P st \<subseteq> {cc_clipId ev} \<and> pipeline_clips P st \<noteq> [] then 1 else 0)"
    unfolding run using c e P
    by (simp add: completions_def send_effect_def is_completion_of_def)
  show "pending_clip_ids P (snd (handleClipCompletion ev st))
         = pending_clip_ids P st - {cc_clipId ev}"
    unfolding run using p by (simp add: inv)
  show "pipeline_clips P (snd (handleClipCompletion ev st)) = [] \<longleftrightarrow> pipeline_clips P st = []"
    unfolding run using p by (simp add: inv)
  show "db_error (snd (handleClipCompletion ev st)) = None"
    unfolding run using d2 by (simp add: inv)
qed


lemmas example_defs = queued_clip_def rendering_pipeline_def state_with_clips_def
  success_notification_def

lemmas handler_defs = handleClipCompletion_def then_step_def hcc_update_render_job_def
  hcc_update_clip_status_def hcc_check_pipeline_completion_def update_render_jobs_def
  update_generated_clips_def select_clips_of_pipeline_def update_where_def send_effect_def
  truthy_def or_else_def

section \<open>Completion under interleaved delivery\<close>

lemma run_alone_handleClipCompletion:
  "snd (run_alone 4 (start_run (Clip_completed ev)) st) = snd (handleClipCompletion ev st)"
  by (simp add: run_alone_def start_run_def eval_nat_numeral handleClipCompletion_def
      then_step_def Let_def split: prod.splits sum.splits option.splits)

lemma run_alone_handleRenderCompleted:
  "snd (run_alone 3 (start_run (Render_complete ev)) st) = handleRenderCompleted ev st"
  by (simp add: run_alone_def start_run_def eval_nat_numeral handleRenderCompleted_def
      hrc_check_pipeline_completion_def Let_def split: prod.splits sum.splits option.splits)


lemma advance_refl: "db_error st = None \<Longrightarrow> advance P {} st st"
  by (simp add: advance_def)














lemma fires_not_check: "fires P r \<Longrightarrow> \<not> will_check P r \<and> marks r = {} \<and> owes r = None"
  by (auto simp: fires_def will_check_def marks_def owes_def split: run_state.splits)

lemma check_not_marks: "will_check P r \<Longrightarrow> marks r = {} \<and> owes r = None"
  by (auto simp: will_check_def marks_def owes_def split: run_state.splits)







lemma done_idle: "r = Run_done \<Longrightarrow> \<not> fires P r \<and> \<not> will_check P r \<and> owes r = None"
  by (simp add: fires_def will_check_def owes_def)















section \<open>The completion checks of the two handlers\<close>

text \<open>
  C7. \<^verbatim>\<open>handleClipCompletion\<close> triggers the completion exactly when all clips are finished
  and there is at least one (\<open>handleClipCompletion_step\<close>, \<open>check_complete_iff\<close>).
  \<^verbatim>\<open>handleRenderCompleted\<close> tests only \<^verbatim>\<open>finishedClips === totalClips\<close>: for a pipeline without
  clip rows it marks the pipeline completed with 0 successful and 0 failed clips, where
  \<^verbatim>\<open>handleClipCompletion\<close> reports the pipeline as not complete and sends nothing.
\<close>

theorem handleRenderCompleted_completes_pipeline_without_clips:
  "handleRenderCompleted
     \<lparr>rc_status = ''success'', rc_error = None, rc_clipId = ''c1'', rc_pipelineId = ''p1'',
      rc_r2_final_url = None\<rparr>
     (state_with_clips [])
   = (state_with_clips [])
       \<lparr>pipelines := [(rendering_pipeline ''p1'')
                        \<lparr>pl_status := ''completed'', pl_successful_clips := Some 0,
                         pl_failed_clips := Some 0\<rparr>]\<rparr>
   \<and> fst (handleClipCompletion (success_notification ''c1'') (state_with_clips []))
     = Inr (Some \<lparr>cs_complete = False, cs_totalClips = 0, cs_completedClips = 0,
                   cs_failedClips = 0\<rparr>)
   \<and> effects (snd (handleClipCompletion (success_notification ''c1'') (state_with_clips [])))
     = []"
  by (simp add: handleRenderCompleted_def hrc_update_final_status_def
      hrc_check_pipeline_completion_def update_pipelines_def example_defs handler_defs Let_def)

section \<open>Phase 1: failure classification, retries and admission\<close>

lemma modal_analysis_non_ok:
  assumes "truthy authToken" and "\<not> response_ok (hr_status response)"
  shows "modal_analysis authToken (Fetch_response response) pd st
         = (Inl (throw_for_status response), send_effect (Analysis_request (pd_pipelineId pd)) st)"
    and "unified_phase1_analysis authToken (Fetch_response response) pd st
         = (Inl (throw_for_status response), send_effect (Analysis_request (pd_pipelineId pd)) st)"
  using assms
  by (simp_all add: modal_analysis_def unified_phase1_analysis_def handle_analysis_response_def
      Let_def)

text \<open>
  C5. For a non-2xx response of the analysis backend, the analysis step of both
  \<^verbatim>\<open>phase1AnalysisProcessor\<close> and \<^verbatim>\<open>unifiedPipelineProcessor\<close> throws what the status decides: a
  \<^verbatim>\<open>NonRetriableError\<close> for 401 and 403 (authentication failure) and for every other status from
  400 to 499 (client error), after which the step is not run again (one request in all); a
  plain \<^verbatim>\<open>Error\<close> for a status from 500 up, after which the step is run once more under
  \<^verbatim>\<open>retries: 1\<close> (two requests when the backend answers the same again).
\<close>

theorem non_2xx_analysis_response_classified:
  assumes "truthy authToken" and "\<not> response_ok (hr_status response)"
  shows
    "modal_analysis authToken (Fetch_response response) pd st
       = (Inl (throw_for_status response), send_effect (Analysis_request (pd_pipelineId pd)) st)
   \<and> unified_phase1_analysis authToken (Fetch_response response) pd st
       = (Inl (throw_for_status response), send_effect (Analysis_request (pd_pipelineId pd)) st)
   \<and> (400 \<le> hr_status response \<and> hr_status response < 500 \<longrightarrow>
        throw_for_status response
          = NonRetriableError
              ((if hr_status response = 401 \<or> hr_status response = 403
                then ''Authentication failed: '' else ''Client error: '') @ status_line response)
      \<and> run_step 1 (\<lambda>attempt. modal_analysis authToken (Fetch_response response) pd) 0 st
          = (Inl (throw_for_status response),
             send_effect (Analysis_request (pd_pipelineId pd)) st, 1)
      \<and> run_step 1 (\<lambda>attempt. unified_phase1_analysis authToken (Fetch_response response) pd) 0 st
          = (Inl (throw_for_status response),
             send_effect (Analysis_request (pd_pipelineId pd)) st, 1))
   \<and> (500 \<le> hr_status response \<longrightarrow>
        throw_for_status response = Error (''Analysis phase failed: '' @ status_line response)
      \<and> run_step 1 (\<lambda>attempt. modal_analysis authToken (Fetch_response response) pd) 0 st
          = (Inl (throw_for_status response),
             send_effect (Analysis_request (pd_pipelineId pd))
               (send_effect (Analysis_request (pd_pipelineId pd)) st), 2)
      \<and> run_step 1 (\<lambda>attempt. unified_phase1_analysis authToken (Fetch_response response) pd) 0 st
          = (Inl (throw_for_status response),
             send_effect (Analysis_request (pd_pipelineId pd))
               (send_effect (Analysis_request (pd_pipelineId pd)) st), 2))"
proof -
  note m = modal_analysis_non_ok[OF assms]
  have c4: "throw_for_status response
          = NonRetriableError
              ((if hr_status response = 401 \<or> hr_status response = 403
                then ''Authentication failed: '' else ''Client error: '') @ status_line response)"
    if "400 \<le> hr_status response \<and> hr_status response < 500"
    using that by (simp add: throw_for_status_def)
  have c5: "throw_for_status response = Error (''Analysis phase failed: '' @ status_line response)"
    if "500 \<le> hr_status response"
    using that by (simp add: throw_for_status_def)
  have r4: "run_step 1 (\<lambda>attempt. f) 0 st = (Inl (throw_for_status response), st', 1)"
    if "400 \<le> hr_status response \<and> hr_status response < 500"
      and "\<And>s. f s = (Inl (throw_for_status response), send_effect e s)"
      and "st' = send_effect e st"
    for f :: "system_state \<Rightarrow> (thrown + analysis_result) \<times> system_state" and e st'
    using that by (simp add: c4)
  have r5: "run_step 1 (\<lambda>attempt. f) 0 st = (Inl (throw_for_status response), st', 2)"
    if "500 \<le> hr_status response"
      and "\<And>s. f s = (Inl (throw_for_status response), send_effect e s)"
      and "st' = send_effect e (send_effect e st)"
    for f :: "system_state \<Rightarrow> (thrown + analysis_result) \<times> system_state" and e st'
    using that by (simp add: c5)
  show ?thesis
    using m c4 c5
      r4[of "modal_analysis authToken (Fetch_response response) pd", OF _ modal_analysis_non_ok(1)[OF assms] refl]
      r4[of "unified_phase1_analysis authToken (Fetch_response response) pd", OF _ modal_analysis_non_ok(2)[OF assms] refl]
      r5[of "modal_analysis authToken (Fetch_response response) pd", OF _ modal_analysis_non_ok(1)[OF assms] refl]
      r5[of "unified_phase1_analysis authToken (Fetch_response response) pd", OF _ modal_analysis_non_ok(2)[OF assms] refl]
    by blast
qed


text \<open>Statuses 403, 422 and 503.\<close>

theorem non_2xx_analysis_response_classified_witness:
  "run_step 1 (\<lambda>attempt. modal_analysis (Some ''tok'')
                  (Fetch_response (error_response 403 ''Forbidden'')) example_pipeline_data)
     0 (state_with_user 5 False)
   = (Inl (NonRetriableError ''Authentication failed: 403 Forbidden - no''),
      send_effect (Analysis_request ''p1'') (state_with_user 5 False), 1)
   \<and> run_step 1 (\<lambda>attempt. modal_analysis (Some ''tok'')
                  (Fetch_response (error_response 422 ''Unprocessable'')) example_pipeline_data)
     0 (state_with_user 5 False)
   = (Inl (NonRetriableError ''Client error: 422 Unprocessable - no''),
      send_effect (Analysis_request ''p1'') (state_with_user 5 False), 1)
   \<and> run_step 1 (\<lambda>attempt. modal_analysis (Some ''tok'')
                  (Fetch_response (error_response 503 ''Unavailable'')) example_pipeline_data)
     0 (state_with_user 5 False)
   = (Inl (Error ''Analysis phase failed: 503 Unavailable - no''),
      send_effect (Analysis_request ''p1'')
        (send_effect (Analysis_request ''p1'') (state_with_user 5 False)), 2)"
proof -
  have t: "truthy (Some ''tok'')" by (simp add: truthy_def)
  have n: "\<not> response_ok (hr_status (error_response 403 ''Forbidden''))"
    "\<not> response_ok (hr_status (error_response 422 ''Unprocessable''))"
    "\<not> response_ok (hr_status (error_response 503 ''Unavailable''))"
    by (simp_all add: response_ok_def error_response_def)
  have s: "show_nat 403 = ''403''" "show_nat 422 = ''422''" "show_nat 503 = ''503''"
    by code_simp+
  have l: "status_line (error_response 403 ''Forbidden'') = ''403 Forbidden - no''"
    "status_line (error_response 422 ''Unprocessable'') = ''422 Unprocessable - no''"
    "status_line (error_response 503 ''Unavailable'') = ''503 Unavailable - no''"
    by (simp_all add: status_line_def error_response_def s)
  have v: "hr_status (error_response 403 ''Forbidden'') = 403"
    "hr_status (error_response 422 ''Unprocessable'') = 422"
    "hr_status (error_response 503 ''Unavailable'') = 503"
    by (simp_all add: error_response_def)
  have p: "pd_pipelineId example_pipeline_data = ''p1''"
    by (simp add: example_pipeline_data_def)
  let ?st = "state_with_user 5 False"
  let ?run = "\<lambda>r. run_step 1 (\<lambda>attempt. modal_analysis (Some ''tok'') (Fetch_response r)
                                 example_pipeline_data) 0 ?st"
  have r1: "400 \<le> hr_status (error_response 403 ''Forbidden'')
            \<and> hr_status (error_response 403 ''Forbidden'') < 500"
    and r2: "400 \<le> hr_status (error_response 422 ''Unprocessable'')
            \<and> hr_status (error_response 422 ''Unprocessable'') < 500"
    and r3: "500 \<le> hr_status (error_response 503 ''Unavailable'')"
    by (simp_all add: v)
  from non_2xx_analysis_response_classified [OF t n(1), of example_pipeline_data ?st] r1
  have a1: "?run (error_response 403 ''Forbidden'')
      = (Inl (throw_for_status (error_response 403 ''Forbidden'')),
         send_effect (Analysis_request (pd_pipelineId example_pipeline_data)) ?st, 1)"
    and b1: "throw_for_status (error_response 403 ''Forbidden'')
      = NonRetriableError
          ((if hr_status (error_response 403 ''Forbidden'') = 401
               \<or> hr_status (error_response 403 ''Forbidden'') = 403
            then ''Authentication failed: '' else ''Client error: '')
           @ status_line (error_response 403 ''Forbidden''))"
    by blast+
  from non_2xx_analysis_response_classified [OF t n(2), of example_pipeline_data ?st] r2
  have a2: "?run (error_response 422 ''Unprocessable'')
      = (Inl (throw_for_status (error_response 422 ''Unprocessable'')),
         send_effect (Analysis_request (pd_pipelineId example_pipeline_data)) ?st, 1)"
    and b2: "throw_for_status (error_response 422 ''Unprocessable'')
      = NonRetriableError
          ((if hr_status (error_response 422 ''Unprocessable'') = 401
               \<or> hr_status (error_response 422 ''Unprocessable'') = 403
            then ''Authentication failed: '' else ''Client error: '')
           @ status_line (error_response 422 ''Unprocessable''))"
    by blast+
  from non_2xx_analysis_response_classified [OF t n(3), of example_pipeline_data ?st] r3
  have a3: "?run (error_response 503 ''Unavailable'')
      = (Inl (throw_for_status (error_response 503 ''Unavailable'')),
         send_effect (Analysis_request (pd_pipelineId example_pipeline_data))
           (send_effect (Analysis_request (pd_pipelineId example_pipeline_data)) ?st), 2)"
    and b3: "throw_for_status (error_response 503 ''Unavailable'')
      = Error (''Analysis phase failed: '' @ status_line (error_response 503 ''Unavailable''))"
    by blast+
  show ?thesis
    unfolding a1 a2 a3 b1 b2 b3 v l p by simp
qed

text \<open>
  C6. On a 2xx response whose payload has status \<^verbatim>\<open>"error"\<close> the step writes the pipeline as
  failed with the error message and phase, and throws; but what it throws is a plain
  \<^verbatim>\<open>Error\<close>, not the \<^verbatim>\<open>NonRetriableError\<close> the step uses for the failures it means not to retry.
  Under \<^verbatim>\<open>retries: 1\<close> the analysis is requested again, and when that second answer is a
  success the run goes on: the pipeline ends as \<^verbatim>\<open>analysis_completed\<close> and phase 2 is started.
\<close>

theorem analysis_error_payload_is_retried:
  "modal_analysis (Some ''tok'') (Fetch_response error_payload) example_pipeline_data
     (state_with_user 5 False)
   = (Inl (Error ''Analysis phase failed: download failed. Pipeline stopped.''),
      (state_with_user 5 False)
        \<lparr>pipelines := [\<lparr>pl_id = ''p1'', pl_status = ''failed'', pl_total_clips = None,
                         pl_successful_clips = None, pl_failed_clips = None,
                         pl_error_message = Some ''download failed'',
                         pl_error_phase = Some ''download''\<rparr>],
         effects := [Analysis_request ''p1'']\<rparr>)
   \<and> phase1AnalysisProcessor valid_phase1_event (Some ''tok'')
       (\<lambda>attempt. if attempt = 0 then Fetch_response error_payload
                   else Fetch_response success_payload)
       (state_with_user 5 False)
   = (Inr (),
      (state_with_user 5 False)
        \<lparr>pipelines := [\<lparr>pl_id = ''p1'', pl_status = ''analysis_completed'',
                         pl_total_clips = Some 2,
                         pl_successful_clips = None, pl_failed_clips = None,
                         pl_error_message = Some ''download failed'',
                         pl_error_phase = Some ''download''\<rparr>],
         effects := [Analysis_request ''p1'', Analysis_request ''p1'',
                     Send_phase2_start ''p1''
                       \<lparr>ar_status = ''success'', ar_run_id = ''r1'',
                        ar_viral_moments = [''m0'', ''m1''],
                        ar_error = None, ar_error_phase = None\<rparr>]\<rparr>)"
  by (simp add: phase1AnalysisProcessor_def then_step_def step_run_def user_validation_def
      select_user_single_def update_pipeline_status_def modal_analysis_def
      handle_analysis_response_def persist_analysis_failure_def
      update_pipeline_after_analysis_def trigger_phase2_def update_pipelines_def
      update_where_def send_effect_def truthy_def or_else_def undefined_or_def response_ok_def
      valid_phase1_event_def state_with_user_def error_payload_def success_payload_def
      example_pipeline_data_def Let_def)


text \<open>
  C8 (as amended). The admission checks live in two functions. \<^verbatim>\<open>checkUserQuota\<close> tests, in
  this order, daily requests below 20, concurrent jobs below 3 and system-wide pipelines
  below 8; the first test that fails gives \<^verbatim>\<open>allowed: false\<close> with its reason, and the result
  depends on the quota and load records only. The user-validation step of phase 1 tests, in
  this order, that the user is not blocked and has credits above 0; it throws at the first
  failure, and for a user without credits it first writes the status \<^verbatim>\<open>no credits\<close> to the
  pipeline row. Otherwise it leaves the state as it is.
\<close>

theorem admission_checks_are_split:
  assumes "truthy (p1_youtubeUrl ev)" and "truthy (p1_userId ev)"
    and "truthy (p1_uploadedFileId ev)" and "truthy (p1_downloadUrl ev)"
    and "select_user_single (the (p1_userId ev)) st = Inr userProfile"
  shows
    "(qd_allowed (checkUserQuota getUserQuota load uid) \<longleftrightarrow>
        uq_daily_requests (getUserQuota uid) < 20 \<and> uq_concurrent_jobs (getUserQuota uid) < 3
        \<and> sl_concurrent_pipelines load < 8)
   \<and> (20 \<le> uq_daily_requests (getUserQuota uid) \<longrightarrow>
        checkUserQuota getUserQuota load uid
          = \<lparr>qd_allowed = False, qd_reason = Some ''Daily quota exceeded (20 requests/day)''\<rparr>)
   \<and> (uq_daily_requests (getUserQuota uid) < 20 \<and> 3 \<le> uq_concurrent_jobs (getUserQuota uid) \<longrightarrow>
        checkUserQuota getUserQuota load uid
          = \<lparr>qd_allowed = False, qd_reason = Some ''Too many concurrent jobs (max 3)''\<rparr>)
   \<and> (uq_daily_requests (getUserQuota uid) < 20 \<and> uq_concurrent_jobs (getUserQuota uid) < 3
        \<and> 8 \<le> sl_concurrent_pipelines load \<longrightarrow>
        checkUserQuota getUserQuota load uid
          = \<lparr>qd_allowed = False,
             qd_reason = Some ''System at capacity, please try again in a few minutes''\<rparr>)
   \<and> (qd_allowed (checkUserQuota getUserQuota load uid) \<longrightarrow>
        qd_reason (checkUserQuota getUserQuota load uid) = None)
   \<and> (up_is_blocked userProfile \<longrightarrow>
        user_validation ev st = (Inl (Error ''Account is blocked''), st))
   \<and> (\<not> up_is_blocked userProfile \<and> up_credits userProfile \<le> 0 \<longrightarrow>
        user_validation ev st
          = (Inl (Error ''User has no credits remaining''),
             snd (update_pipelines (\<lambda>p. pl_id p = the (p1_uploadedFileId ev))
                    (\<lambda>p. p\<lparr>pl_status := ''no credits''\<rparr>) st)))
   \<and> (\<not> up_is_blocked userProfile \<and> 0 < up_credits userProfile \<longrightarrow>
        user_validation ev st
          = (Inr \<lparr>pd_youtubeUrl = the (p1_youtubeUrl ev), pd_userId = the (p1_userId ev),
                  pd_fontFamily = or_else (p1_fontFamily ev) ''anton'',
                  pd_pipelineId = the (p1_uploadedFileId ev),
                  pd_userCredits = up_credits userProfile\<rparr>, st))"
proof -
  have q: "(qd_allowed (checkUserQuota getUserQuota load uid) \<longleftrightarrow>
        uq_daily_requests (getUserQuota uid) < 20 \<and> uq_concurrent_jobs (getUserQuota uid) < 3
        \<and> sl_concurrent_pipelines load < 8)
   \<and> (20 \<le> uq_daily_requests (getUserQuota uid) \<longrightarrow>
        checkUserQuota getUserQuota load uid
          = \<lparr>qd_allowed = False, qd_reason = Some ''Daily quota exceeded (20 requests/day)''\<rparr>)
   \<and> (uq_daily_requests (getUserQuota uid) < 20 \<and> 3 \<le> uq_concurrent_jobs (getUserQuota uid) \<longrightarrow>
        checkUserQuota getUserQuota load uid
          = \<lparr>qd_allowed = False, qd_reason = Some ''Too many concurrent jobs (max 3)''\<rparr>)
   \<and> (uq_daily_requests (getUserQuota uid) < 20 \<and> uq_concurrent_jobs (getUserQuota uid) < 3
        \<and> 8 \<le> sl_concurrent_pipelines load \<longrightarrow>
        checkUserQuota getUserQuota load uid
          = \<lparr>qd_allowed = False,
             qd_reason = Some ''System at capacity, please try again in a few minutes''\<rparr>)
   \<and> (qd_allowed (checkUserQuota getUserQuota load uid) \<longrightarrow>
        qd_reason (checkUserQuota getUserQuota load uid) = None)"
    by (simp add: checkUserQuota_def Let_def)
  have v: "(up_is_blocked userProfile \<longrightarrow>
        user_validation ev st = (Inl (Error ''Account is blocked''), st))
   \<and> (\<not> up_is_blocked userProfile \<and> up_credits userProfile \<le> 0 \<longrightarrow>
        user_validation ev st
          = (Inl (Error ''User has no credits remaining''),
             snd (update_pipelines (\<lambda>p. pl_id p = the (p1_uploadedFileId ev))
                    (\<lambda>p. p\<lparr>pl_status := ''no credits''\<rparr>) st)))
   \<and> (\<not> up_is_blocked userProfile \<and> 0 < up_credits userProfile \<longrightarrow>
        user_validation ev st
          = (Inr \<lparr>pd_youtubeUrl = the (p1_youtubeUrl ev), pd_userId = the (p1_userId ev),
                  pd_fontFamily = or_else (p1_fontFamily ev) ''anton'',
                  pd_pipelineId = the (p1_uploadedFileId ev),
                  pd_userCredits = up_credits userProfile\<rparr>, st))"
    using assms by (simp add: user_validation_def)
  from q v show ?thesis by blast
qed

text \<open>A user at all three limits; a blocked user; a user with three credits.\<close>

theorem admission_checks_are_split_witness:
  "checkUserQuota (\<lambda>u. \<lparr>uq_user_id = u, uq_daily_requests = 20, uq_concurrent_jobs = 3\<rparr>)
     \<lparr>sl_concurrent_pipelines = 8\<rparr> ''u1''
   = \<lparr>qd_allowed = False, qd_reason = Some ''Daily quota exceeded (20 requests/day)''\<rparr>
   \<and> user_validation valid_phase1_event (state_with_user 0 True)
     = (Inl (Error ''Account is blocked''), state_with_user 0 True)
   \<and> user_validation valid_phase1_event (state_with_user 3 False)
     = (Inr \<lparr>pd_youtubeUrl = ''https://youtu.be/x'', pd_userId = ''u1'',
             pd_fontFamily = ''anton'', pd_pipelineId = ''p1'', pd_userCredits = 3\<rparr>,
        state_with_user 3 False)"
proof -
  let ?g = "\<lambda>u. \<lparr>uq_user_id = u, uq_daily_requests = 20, uq_concurrent_jobs = 3\<rparr>"
  have t: "truthy (p1_youtubeUrl valid_phase1_event)" "truthy (p1_userId valid_phase1_event)"
    "truthy (p1_uploadedFileId valid_phase1_event)" "truthy (p1_downloadUrl valid_phase1_event)"
    by (simp_all add: truthy_def valid_phase1_event_def)
  have u: "select_user_single (the (p1_userId valid_phase1_event)) (state_with_user c b)
           = Inr \<lparr>up_id = ''u1'', up_credits = c, up_is_blocked = b, up_total_credits_used = 0\<rparr>"
    for c b
    by (simp add: select_user_single_def valid_phase1_event_def state_with_user_def)
  have d: "(20::int) \<le> uq_daily_requests (?g ''u1'')" by simp
  from admission_checks_are_split [OF t u [of 0 True], where getUserQuota = ?g
      and load = "\<lparr>sl_concurrent_pipelines = 8\<rparr>" and uid = "''u1''"] d
  have 1: "checkUserQuota ?g \<lparr>sl_concurrent_pipelines = 8\<rparr> ''u1''
       = \<lparr>qd_allowed = False, qd_reason = Some ''Daily quota exceeded (20 requests/day)''\<rparr>"
    and 2: "user_validation valid_phase1_event (state_with_user 0 True)
       = (Inl (Error ''Account is blocked''), state_with_user 0 True)"
    by simp_all
  from admission_checks_are_split [OF t u [of 3 False], where getUserQuota = ?g
      and load = "\<lparr>sl_concurrent_pipelines = 8\<rparr>" and uid = "''u1''"]
  have 3: "user_validation valid_phase1_event (state_with_user 3 False)
     = (Inr \<lparr>pd_youtubeUrl = ''https://youtu.be/x'', pd_userId = ''u1'',
             pd_fontFamily = ''anton'', pd_pipelineId = ''p1'', pd_userCredits = 3\<rparr>,
        state_with_user 3 False)"
    by (simp add: valid_phase1_event_def or_else_def truthy_def)
  from 1 2 3 show ?thesis by blast
qed

text \<open>
  C8 as stated fails: \<^verbatim>\<open>checkUserQuota\<close> admits on the counters alone, with no look at the
  blocked flag or the credit balance, and the step that does check the balance changes the
  pipeline row when the balance is 0.
\<close>

theorem quota_check_ignores_profile_and_validation_writes:
  "qd_allowed (checkUserQuota idle_quota \<lparr>sl_concurrent_pipelines = 0\<rparr> ''u1'')
   \<and> user_validation valid_phase1_event (state_with_user 0 False)
     = (Inl (Error ''User has no credits remaining''),
        (state_with_user 0 False)
          \<lparr>pipelines := [\<lparr>pl_id = ''p1'', pl_status = ''no credits'', pl_total_clips = None,
                           pl_successful_clips = None, pl_failed_clips = None,
                           pl_error_message = None, pl_error_phase = None\<rparr>]\<rparr>)"
  by (simp add: checkUserQuota_def idle_quota_def user_validation_def select_user_single_def
      update_pipelines_def update_where_def truthy_def valid_phase1_event_def state_with_user_def)

section \<open>Phase 2: one failed batch fails the step\<close>

lemma process_batch_cases:
  "batch_failed outcome \<Longrightarrow> isl (process_batch batch outcome)"
  "batch_failed outcome \<Longrightarrow> isl (unified_process_batch batch outcome)"
  "\<not> batch_failed outcome \<Longrightarrow> process_batch batch outcome = Inr (batch_result outcome)"
  "\<not> batch_failed outcome \<Longrightarrow> unified_process_batch batch outcome = Inr (batch_result outcome)"
  by (auto simp: batch_failed_def process_batch_def unified_process_batch_def batch_result_def
      split: batch_fetch.splits option.splits)

lemma promise_all_append:
  "promise_all (ps @ qs)
   = (case promise_all ps of
        Inl e \<Rightarrow> Inl e
      | Inr vs \<Rightarrow> (case promise_all qs of Inl e \<Rightarrow> Inl e | Inr ws \<Rightarrow> Inr (vs @ ws)))"
  by (induction ps rule: promise_all.induct) (auto split: sum.splits)

lemma await_in_chunks_eq:
  "await_in_chunks ps i rs
   = (case promise_all (drop i ps) of Inl e \<Rightarrow> Inl e | Inr vs \<Rightarrow> Inr (rs @ vs))"
proof (induction ps i rs rule: await_in_chunks.induct)
  case (1 ps i rs)
  show ?case
  proof (cases "i < length ps")
    case False
    then show ?thesis by (subst await_in_chunks.simps) simp
  next
    case True
    let ?m = maxConcurrentBatches
    have split: "drop i ps = js_slice ps i (i + ?m) @ drop (i + ?m) ps"
      by (simp add: js_slice_def add.commute[of i] flip: drop_drop)
    show ?thesis
    proof (cases "promise_all (js_slice ps i (i + ?m))")
      case (Inl e)
      then show ?thesis using True
        by (subst await_in_chunks.simps, subst split) (simp add: promise_all_append)
    next
      case (Inr vs)
      from "1.IH"[OF True Inr] Inr True show ?thesis
        by (subst await_in_chunks.simps, subst split)
           (simp add: promise_all_append split: sum.splits)
    qed
  qed
qed

lemma promise_all_map:
  "promise_all (map f xs)
   = (if \<exists>x \<in> set xs. isl (f x) then Inl (projl (f (the (find (\<lambda>x. isl (f x)) xs))))
      else Inr (map (\<lambda>x. projr (f x)) xs))"
proof (induction xs)
  case Nil
  then show ?case by simp
next
  case (Cons x xs)
  then show ?case by (cases "f x") auto
qed

lemma effects_fold_send:
  "effects (fold (\<lambda>x. send_effect (g x)) xs st) = effects st @ map g xs"
  by (induction xs arbitrary: st) (simp_all add: send_effect_def)


lemma process_batches_with_eq:
  "process_batches_with one pid batchGroups fetch st
   = (promise_all (map (\<lambda>batch. one batch (fetch (batch_index batch))) batchGroups),
      fold (\<lambda>batch. send_effect (Batch_request pid (batch_index batch))) batchGroups st)"
  by (simp add: process_batches_with_def Let_def await_in_chunks_eq split: sum.splits)

text \<open>
  C3 (as amended). In the \<^verbatim>\<open>process-batches\<close> step (of \<^verbatim>\<open>phase2BatchProcessor\<close> and of
  \<^verbatim>\<open>unifiedPipelineProcessor\<close>) the request of every batch is issued. If no batch fails, the
  step returns the results of the batches in batch order. If any batch fails (non-2xx
  response, status \<^verbatim>\<open>"error"\<close>, timeout), the step throws: it returns no results at all,
  neither those of the sibling batches nor a list of failed clips.
\<close>

theorem batch_failure_aborts_phase:
  "((\<forall>batch \<in> set batchGroups. \<not> batch_failed (fetch (batch_index batch))) \<longrightarrow>
      fst (process_batches pid batchGroups fetch st)
        = Inr (map (\<lambda>batch. batch_result (fetch (batch_index batch))) batchGroups)
    \<and> fst (unified_process_batches pid batchGroups fetch st)
        = Inr (map (\<lambda>batch. batch_result (fetch (batch_index batch))) batchGroups))
   \<and> ((\<exists>batch \<in> set batchGroups. batch_failed (fetch (batch_index batch))) \<longrightarrow>
        (\<exists>e. fst (process_batches pid batchGroups fetch st) = Inl e)
      \<and> (\<exists>e. fst (unified_process_batches pid batchGroups fetch st) = Inl e))
   \<and> effects (snd (process_batches pid batchGroups fetch st))
       = effects st @ map (\<lambda>batch. Batch_request pid (batch_index batch)) batchGroups
   \<and> effects (snd (unified_process_batches pid batchGroups fetch st))
       = effects st @ map (\<lambda>batch. Batch_request pid (batch_index batch)) batchGroups"
proof -
  let ?f = "\<lambda>batch. process_batch batch (fetch (batch_index batch))"
  let ?g = "\<lambda>batch. unified_process_batch batch (fetch (batch_index batch))"
  have ok: "promise_all (map ?f batchGroups)
              = Inr (map (\<lambda>batch. batch_result (fetch (batch_index batch))) batchGroups)
          \<and> promise_all (map ?g batchGroups)
              = Inr (map (\<lambda>batch. batch_result (fetch (batch_index batch))) batchGroups)"
    if "\<forall>batch \<in> set batchGroups. \<not> batch_failed (fetch (batch_index batch))"
  proof -
    from that have "\<not> (\<exists>x \<in> set batchGroups. isl (?f x))" "\<not> (\<exists>x \<in> set batchGroups. isl (?g x))"
      by (auto simp: process_batch_cases)
    moreover have "map (\<lambda>x. projr (?f x)) batchGroups
        = map (\<lambda>batch. batch_result (fetch (batch_index batch))) batchGroups"
      "map (\<lambda>x. projr (?g x)) batchGroups
        = map (\<lambda>batch. batch_result (fetch (batch_index batch))) batchGroups"
      using that by (auto simp: process_batch_cases)
    ultimately show ?thesis by (simp add: promise_all_map)
  qed
  have bad: "(\<exists>e. promise_all (map ?f batchGroups) = Inl e)
           \<and> (\<exists>e. promise_all (map ?g batchGroups) = Inl e)"
    if "\<exists>batch \<in> set batchGroups. batch_failed (fetch (batch_index batch))"
  proof -
    from that have "\<exists>x \<in> set batchGroups. isl (?f x)" "\<exists>x \<in> set batchGroups. isl (?g x)"
      by (auto intro: process_batch_cases)
    then show ?thesis by (simp add: promise_all_map)
  qed
  show ?thesis
    using ok bad
    by (simp add: process_batches_def unified_process_batches_def process_batches_with_eq
        effects_fold_send)
qed


text \<open>Nine moments in three batches: all succeed, and the second answered with 500.\<close>

theorem batch_failure_aborts_phase_witness:
  "fst (process_batches ''p1'' example_batches all_batches_ok (state_with_clips []))
     = Inr [batch_ok 0 [0, 1, 2, 3], batch_ok 1 [4, 5, 6, 7], batch_ok 2 [8]]
   \<and> (\<exists>e. fst (process_batches ''p1'' example_batches second_batch_fails (state_with_clips []))
            = Inl e)
   \<and> effects (snd (process_batches ''p1'' example_batches second_batch_fails
                     (state_with_clips [])))
     = [Batch_request ''p1'' 0, Batch_request ''p1'' 1, Batch_request ''p1'' 2]"
proof -
  have ok: "\<forall>batch \<in> set example_batches. \<not> batch_failed (all_batches_ok (batch_index batch))"
    by (simp add: example_batches_def all_batches_ok_def batch_failed_def response_ok_def
        batch_ok_def)
  have bad: "\<exists>batch \<in> set example_batches. batch_failed (second_batch_fails (batch_index batch))"
    by (simp add: example_batches_def second_batch_fails_def batch_failed_def response_ok_def)
  have r: "map (\<lambda>batch. batch_result (all_batches_ok (batch_index batch))) example_batches
           = [batch_ok 0 [0, 1, 2, 3], batch_ok 1 [4, 5, 6, 7], batch_ok 2 [8]]"
    by (simp add: example_batches_def all_batches_ok_def batch_result_def)
  have e: "effects (state_with_clips []) = []" by (simp add: state_with_clips_def)
  from batch_failure_aborts_phase [of example_batches all_batches_ok "''p1''" "state_with_clips []"] ok
  have 1: "fst (process_batches ''p1'' example_batches all_batches_ok (state_with_clips []))
     = Inr (map (\<lambda>batch. batch_result (all_batches_ok (batch_index batch))) example_batches)"
    by blast
  from batch_failure_aborts_phase [of example_batches second_batch_fails "''p1''" "state_with_clips []"]
    bad
  have 2: "\<exists>e. fst (process_batches ''p1'' example_batches second_batch_fails (state_with_clips []))
            = Inl e"
    and 3: "effects (snd (process_batches ''p1'' example_batches second_batch_fails
                     (state_with_clips [])))
     = effects (state_with_clips [])
       @ map (\<lambda>batch. Batch_request ''p1'' (batch_index batch)) example_batches"
    by blast+
  from 1 2 3 show ?thesis
    unfolding r e by (simp add: example_batches_def)
qed

text \<open>
  C3 as stated fails: with batch 2 of 3 answered by a 500, the step ends with the error of
  that batch; the processed clips of batches 1 and 3 are in no output.
\<close>

theorem failed_batch_discards_sibling_results:
  "create_batches clipsPerBatch nine_moments = Some example_batches
   \<and> process_batches ''p1'' example_batches second_batch_fails (state_with_clips [])
     = (Inl (Error ''Batch 1 failed: 500 Internal Server Error''),
        (state_with_clips [])
          \<lparr>effects := [Batch_request ''p1'' 0, Batch_request ''p1'' 1, Batch_request ''p1'' 2]\<rparr>)"
proof -
  have c: "create_batches clipsPerBatch nine_moments = Some example_batches"
    by (simp add: create_batches_def clipsPerBatch_def nine_moments_def example_batches_def
        map_index_def enumerate_eq_zip upt_rec batch_loop.simps js_slice_def Let_def)
  have s: "show_nat (Suc 0) = ''1''" "show_nat 500 = ''500''" by code_simp+
  have p: "process_batches ''p1'' example_batches second_batch_fails (state_with_clips [])
     = (Inl (Error ''Batch 1 failed: 500 Internal Server Error''),
        (state_with_clips [])
          \<lparr>effects := [Batch_request ''p1'' 0, Batch_request ''p1'' 1, Batch_request ''p1'' 2]\<rparr>)"
    by (simp add: process_batches_def process_batches_with_def await_in_chunks.simps
        maxConcurrentBatches_def js_slice_def process_batch_def second_batch_fails_def
        all_batches_ok_def response_ok_def batch_ok_def example_batches_def s send_effect_def
        state_with_clips_def Let_def)
  from c p show ?thesis by blast
qed

section \<open>Credits are deducted when the renders are dispatched\<close>











end
